theory Spec2Isabelle
  imports Main
begin

section \<open>Cluster submission adapters \<open>Snakefile_qsub.py\<close> and \<open>Snakefile_sbatch.py\<close>\<close>

text \<open>
  The two scripts are Python 3 programs (they print with \<open>print(..., file=sys.stderr)\<close>
  and import \<open>snakemake\<close>). Each is run once per job: it reads the job's properties from
  the generated shell script, looks up the rule's resources in a JSON configuration,
  builds one submission command line, runs it through the shell and prints the job id
  found in the captured output.

  Strings are \<open>string\<close>. The captured output of the submission tool is a Python
  \<open>bytes\<close> object (the pipe is opened without text mode); a \<open>char\<close> of HOL is one
  byte, so it is a \<open>string\<close> here as well.
\<close>

subsection \<open>Python built-ins used by the scripts\<close>

datatype error =
    UndefinedJobRule string
  | OSError nat
  | KeyError string
  | TypeError
  | IndexError
  | AttributeError
  | SystemExit nat
  | PropertiesError

text \<open>
  \<open>UndefinedJobRule\<close> carries the field \<open>msg\<close> of the scripts' own exception class,
  \<open>OSError\<close> its \<open>errno\<close>, \<open>KeyError\<close> the missing key and \<open>SystemExit\<close> the status
  given to \<open>sys.exit\<close>. \<open>PropertiesError\<close> stands for whatever
  \<open>snakemake.utils.read_job_properties\<close> raises on a script without job properties.
  \<open>ValueError\<close> is raised and caught inside \<open>schedule\<close> only, so it is a branch of the
  model and not a value of this type.
\<close>

definition EEXIST :: nat where
  "EEXIST = 17"

text \<open>\<open>sep.join(xs)\<close>.\<close>

fun py_join :: "string \<Rightarrow> string list \<Rightarrow> string" where
  "py_join sep [] = []"
| "py_join sep [x] = x"
| "py_join sep (x # y # ys) = x @ sep @ py_join sep (y # ys)"

text \<open>\<open>s.startswith(p)\<close>.\<close>

definition startswith :: "string \<Rightarrow> string \<Rightarrow> bool" where
  "startswith s p \<longleftrightarrow> take (length p) s = p"

text \<open>
  The whitespace of \<open>bytes.split()\<close> and of \<open>int()\<close> on bytes: space, tab, newline,
  vertical tab, form feed and carriage return.
\<close>

definition is_space :: "char \<Rightarrow> bool" where
  "is_space c \<longleftrightarrow> of_char c \<in> {32, 9, 10, 11, 12, 13 :: nat}"

text \<open>
  \<open>b.split()\<close> with no argument: the maximal runs of non-whitespace bytes, in order;
  leading and trailing whitespace gives no empty token. \<open>cur\<close> is the token being read.
\<close>

fun split_ws :: "string \<Rightarrow> string \<Rightarrow> string list" where
  "split_ws cur [] = (if cur = [] then [] else [cur])"
| "split_ws cur (c # cs) =
     (if is_space c then (if cur = [] then split_ws [] cs else cur # split_ws [] cs)
      else split_ws (cur @ [c]) cs)"

definition py_split :: "string \<Rightarrow> string list" where
  "py_split s = split_ws [] s"

text \<open>
  \<open>xs[i]\<close>: a negative index counts from the end, an index out of range raises
  \<open>IndexError\<close>.
\<close>

definition py_index :: "'a list \<Rightarrow> int \<Rightarrow> error + 'a" where
  "py_index xs i =
     (if 0 \<le> i \<and> i < int (length xs) then Inr (xs ! nat i)
      else if i < 0 \<and> - i \<le> int (length xs) then Inr (xs ! nat (int (length xs) + i))
      else Inl IndexError)"

definition is_digit :: "char \<Rightarrow> bool" where
  "is_digit c \<longleftrightarrow> 48 \<le> (of_char c :: nat) \<and> (of_char c :: nat) \<le> 57"

definition digit_val :: "char \<Rightarrow> nat" where
  "digit_val c = of_char c - 48"

text \<open>
  The digits of a base-10 integer literal: at least one digit, and single underscores
  between digits only. \<open>prev\<close> says that the byte before was a digit, \<open>acc\<close> is the value
  read so far.
\<close>

fun parse_digits :: "bool \<Rightarrow> nat \<Rightarrow> string \<Rightarrow> nat option" where
  "parse_digits prev acc [] = (if prev then Some acc else None)"
| "parse_digits prev acc (c # cs) =
     (if is_digit c then parse_digits True (acc * 10 + digit_val c) cs
      else if c = CHR ''_'' \<and> prev then parse_digits False acc cs
      else None)"

definition strip_ws :: "string \<Rightarrow> string" where
  "strip_ws s = rev (dropWhile is_space (rev (dropWhile is_space s)))"

text \<open>
  \<open>int(b)\<close> on bytes: surrounding whitespace is dropped, then an optional sign and the
  digits. \<open>None\<close> is \<open>ValueError\<close>. (Recent interpreters also raise \<open>ValueError\<close> on a
  literal of more than 4300 digits; that configurable limit is not part of the model.)
\<close>

definition py_int :: "string \<Rightarrow> int option" where
  "py_int b =
     (case strip_ws b of
        [] \<Rightarrow> None
      | c # cs \<Rightarrow>
          if c = CHR ''-'' then map_option (\<lambda>n. - int n) (parse_digits False 0 cs)
          else if c = CHR ''+'' then map_option int (parse_digits False 0 cs)
          else map_option int (parse_digits False 0 (c # cs)))"

text \<open>\<open>"%i" % n\<close> and \<open>str(n)\<close>: the decimal digits, with a minus sign below zero.\<close>

definition digit_char :: "nat \<Rightarrow> char" where
  "digit_char d = ''0123456789'' ! d"

function show_nat :: "nat \<Rightarrow> string" where
  "show_nat n = (if n < 10 then [digit_char n] else show_nat (n div 10) @ [digit_char (n mod 10)])"
  by pat_completeness auto
termination
  by (relation "measure (\<lambda>n. n)") auto

declare show_nat.simps [simp del]

definition show_int :: "int \<Rightarrow> string" where
  "show_int i = (if i < 0 then CHR ''-'' # show_nat (nat (- i)) else show_nat (nat i))"

text \<open>
  \<open>str(b)\<close> of a bytes object, which is what \<open>"%s" % b\<close> inserts: the literal
  \<open>b'...'\<close>. The quote is the double quote when the bytes hold a single quote and no
  double quote; the quote, the backslash, tab, newline and carriage return are escaped,
  and any other byte outside the printable ASCII range is written \<open>\xNN\<close>.
\<close>

definition hex_digit :: "nat \<Rightarrow> char" where
  "hex_digit d = ''0123456789abcdef'' ! d"

definition bytes_quote :: "string \<Rightarrow> char" where
  "bytes_quote b = (if CHR 0x27 \<in> set b \<and> CHR 0x22 \<notin> set b then CHR 0x22 else CHR 0x27)"

definition escape_byte :: "char \<Rightarrow> char \<Rightarrow> string" where
  "escape_byte q c =
     (if c = q \<or> c = CHR 0x5C then [CHR 0x5C, c]
      else if c = CHR 0x09 then [CHR 0x5C, CHR ''t'']
      else if c = CHR 0x0A then [CHR 0x5C, CHR ''n'']
      else if c = CHR 0x0D then [CHR 0x5C, CHR ''r'']
      else if (of_char c :: nat) < 32 \<or> 127 \<le> (of_char c :: nat)
        then [CHR 0x5C, CHR ''x'', hex_digit ((of_char c :: nat) div 16), hex_digit ((of_char c :: nat) mod 16)]
      else [c])"

definition bytes_str :: "string \<Rightarrow> string" where
  "bytes_str b = (let q = bytes_quote b in CHR ''b'' # q # concat (map (escape_byte q) b) @ [q])"

subsection \<open>Sequencing\<close>

text \<open>
  A computation that can raise returns \<open>error + 'a\<close>; \<open>and_then\<close> runs the next statement
  unless the one before raised.
\<close>

definition and_then :: "error + 'a \<Rightarrow> ('a \<Rightarrow> error + 'b) \<Rightarrow> error + 'b" where
  "and_then r f = (case r of Inl e \<Rightarrow> Inl e | Inr v \<Rightarrow> f v)"

text \<open>
  What a run does to the outside, in the order it does it: reading the job properties,
  \<open>os.makedirs\<close>, one \<open>print\<close> call on a stream, the submission command given to the
  shell, and the traceback the interpreter writes for an exception nobody caught.
\<close>

datatype stream = Stdout | Stderr

datatype effect =
    ReadProperties string
  | MakeDirs string
  | Print stream string
  | Popen string
  | Traceback error

type_synonym 'a action = "effect list \<times> (error + 'a)"

definition seq :: "'a action \<Rightarrow> ('a \<Rightarrow> 'b action) \<Rightarrow> 'b action" where
  "seq m f =
     (case m of
        (es, Inl e) \<Rightarrow> (es, Inl e)
      | (es, Inr v) \<Rightarrow> (case f v of (es', r) \<Rightarrow> (es @ es', r)))"

fun printed :: "stream \<Rightarrow> effect list \<Rightarrow> string list" where
  "printed st [] = []"
| "printed st (Print st' s # es) = (if st' = st then s # printed st es else printed st es)"
| "printed st (_ # es) = printed st es"

fun spawned :: "effect list \<Rightarrow> string list" where
  "spawned [] = []"
| "spawned (Popen c # es) = c # spawned es"
| "spawned (_ # es) = spawned es"

subsection \<open>Configuration, job properties and the environment\<close>

text \<open>
  The configuration is the object read from \<open>config_qsub.json\<close> or \<open>config_sbatch.json\<close>:
  a dict from keys to values. A value is an object (\<open>CRec\<close>, a dict of fields), a string
  (\<open>CStr\<close>) or anything else JSON has (\<open>COther\<close>: a number, an array, a boolean, null),
  which the scripts treat alike. The fields of an object are strings, integers, booleans
  or null.
\<close>

datatype scalar = SStr string | SInt int | SBool bool | SNull

datatype conf_value = CRec "string \<rightharpoonup> scalar" | CStr string | COther

type_synonym config = "string \<rightharpoonup> conf_value"

text \<open>What \<open>read_job_properties\<close> returns: the keys the scripts read.\<close>

record job_properties =
  prop_rule :: string
  prop_input :: "string list"
  prop_output :: "string list"

text \<open>
  The environment of one run: the library call that reads the job properties of a
  script, \<open>os.path.dirname(os.path.abspath(p))\<close> (which depends on the current directory),
  the outcome of \<open>os.makedirs\<close> on a directory (\<open>None\<close> when it is created,
  \<open>Some errno\<close> when \<open>OSError\<close> is raised) and the combined output the shell command
  writes before it exits.
\<close>

record world =
  read_job_properties :: "string \<Rightarrow> error + job_properties"
  dirname_abspath :: "string \<Rightarrow> string"
  os_makedirs :: "string \<Rightarrow> nat option"
  communicate :: "string \<Rightarrow> string"

subsection \<open>\<open>make_dir\<close>\<close>

definition make_dir :: "world \<Rightarrow> string \<Rightarrow> unit action" where
  "make_dir w directory =
     ([MakeDirs directory],
      case os_makedirs w directory of
        None \<Rightarrow> Inr ()
      | Some errno \<Rightarrow> if errno \<noteq> EEXIST then Inl (OSError errno) else Inr ())"

subsection \<open>\<open>SnakeJob\<close> and its two subclasses\<close>

record snake_job =
  scriptname :: string
  rule :: string
  ifiles :: "string list"
  ofiles :: "string list"
  dependencies :: "string list option"
  config :: config

record snake_job_sub = snake_job +
  dep_str :: string

text \<open>
  \<open>SnakeJob.__init__\<close>. The dependencies are the command-line words, or \<open>None\<close> when
  the argument is left out; an empty list becomes \<open>None\<close>.
\<close>

definition SnakeJob_init :: "world \<Rightarrow> string \<Rightarrow> string list option \<Rightarrow> config \<Rightarrow> snake_job action" where
  "SnakeJob_init w snakebashfile deps conf =
     ([ReadProperties snakebashfile],
      and_then (read_job_properties w snakebashfile) (\<lambda>job_properties.
        Inr \<lparr> scriptname = snakebashfile,
              rule = prop_rule job_properties,
              ifiles = prop_input job_properties,
              ofiles = prop_output job_properties,
              dependencies =
                (case deps of
                   None \<Rightarrow> None
                 | Some ds \<Rightarrow> if length ds < 1 then None else Some ds),
              config = conf \<rparr>))"

text \<open>\<open>"%s" % d\<close> of a command-line word is the word.\<close>

definition qsub_dep_str :: "string list option \<Rightarrow> string" where
  "qsub_dep_str deps =
     (case deps of
        None \<Rightarrow> []
      | Some ds \<Rightarrow> ''-hold_jid '' @ py_join '','' (map (\<lambda>d. d) ds))"

definition sbatch_dep_str :: "string list option \<Rightarrow> string" where
  "sbatch_dep_str deps =
     (case deps of
        None \<Rightarrow> []
      | Some ds \<Rightarrow> ''-d '' @ py_join '','' (map (\<lambda>d. ''afterok:'' @ d) ds))"

definition SnakeJobQsub_init ::
  "world \<Rightarrow> string \<Rightarrow> string list option \<Rightarrow> config \<Rightarrow> snake_job_sub action" where
  "SnakeJobQsub_init w snakebashfile deps conf =
     seq (SnakeJob_init w snakebashfile deps conf) (\<lambda>self.
       ([], Inr (snake_job.extend self
                   (snake_job_sub.fields (qsub_dep_str (dependencies self))))))"

definition SnakeJobSbatch_init ::
  "world \<Rightarrow> string \<Rightarrow> string list option \<Rightarrow> config \<Rightarrow> snake_job_sub action" where
  "SnakeJobSbatch_init w snakebashfile deps conf =
     seq (SnakeJob_init w snakebashfile deps conf) (\<lambda>self.
       ([], Inr (snake_job.extend self
                   (snake_job_sub.fields (sbatch_dep_str (dependencies self))))))"

subsection \<open>Looking up the rule's resources\<close>

text \<open>
  Lines 65 to 76 and the \<open>else\<close> branch of line 93 (96 in the sbatch script), the same
  text in both scripts. \<open>rule_conf.startswith\<close> exists on a string only; on any other
  value it raises \<open>AttributeError\<close>, which is passed over. When the second lookup raises
  \<open>KeyError\<close> the assignment has not happened, so the message holds the string.
\<close>

definition resolve_rule_conf :: "config \<Rightarrow> string \<Rightarrow> error + conf_value" where
  "resolve_rule_conf conf r =
     (let schedule_rule = ''schedule_'' @ r in
      case conf schedule_rule of
        None \<Rightarrow> Inl (UndefinedJobRule (''No schedule config found for schedule_'' @ r))
      | Some rule_conf \<Rightarrow>
          (case rule_conf of
             CStr s \<Rightarrow>
               if startswith s ''schedule_''
               then (case conf s of
                       None \<Rightarrow> Inl (UndefinedJobRule (''No schedule config found for '' @ s))
                     | Some target \<Rightarrow> Inr target)
               else Inr rule_conf
           | _ \<Rightarrow> Inr rule_conf))"

text \<open>
  \<open>conf[k]\<close> on the configuration, \<open>v[k]\<close> and \<open>v.get(k, default)\<close> on one of its values.
  Only a dict can be subscripted with a string and only a dict has \<open>get\<close>.
\<close>

definition config_subscript :: "config \<Rightarrow> string \<Rightarrow> error + conf_value" where
  "config_subscript conf k = (case conf k of None \<Rightarrow> Inl (KeyError k) | Some v \<Rightarrow> Inr v)"

definition subscript :: "conf_value \<Rightarrow> string \<Rightarrow> error + scalar" where
  "subscript v k =
     (case v of
        CRec d \<Rightarrow> (case d k of None \<Rightarrow> Inl (KeyError k) | Some x \<Rightarrow> Inr x)
      | _ \<Rightarrow> Inl TypeError)"

definition get_default :: "conf_value \<Rightarrow> string \<Rightarrow> scalar \<Rightarrow> error + scalar" where
  "get_default v k dflt =
     (case v of
        CRec d \<Rightarrow> Inr (case d k of None \<Rightarrow> dflt | Some x \<Rightarrow> x)
      | _ \<Rightarrow> Inl AttributeError)"

subsection \<open>Building the command\<close>

text \<open>What \<open>str.format\<close> writes for a field value.\<close>

fun py_format :: "scalar \<Rightarrow> string" where
  "py_format (SStr s) = s"
| "py_format (SInt i) = show_int i"
| "py_format (SBool b) = (if b then ''True'' else ''False'')"
| "py_format SNull = ''None''"

text \<open>
  A format string is its literal pieces and its \<open>{name}\<close> fields;
  \<open>template.format(**attributes)\<close> raises \<open>KeyError\<close> on a name the dict lacks.
\<close>

datatype piece = Lit string | Field string

fun format_template :: "piece list \<Rightarrow> (string \<rightharpoonup> scalar) \<Rightarrow> error + string" where
  "format_template [] attributes = Inr []"
| "format_template (Lit s # ps) attributes =
     and_then (format_template ps attributes) (\<lambda>rest. Inr (s @ rest))"
| "format_template (Field k # ps) attributes =
     (case attributes k of
        None \<Rightarrow> Inl (KeyError k)
      | Some v \<Rightarrow> and_then (format_template ps attributes) (\<lambda>rest. Inr (py_format v @ rest)))"

text \<open>
  The dict \<open>attributes\<close> of the qsub script. A dict display evaluates its values in the
  order written, so the first lookup that fails decides the exception.
\<close>

definition qsub_attributes :: "snake_job_sub \<Rightarrow> conf_value \<Rightarrow> error + (string \<rightharpoonup> scalar)" where
  "qsub_attributes self rule_conf =
     and_then (config_subscript (config self) ''qsub_general'') (\<lambda>general.
     and_then (subscript general ''wrapper_script'') (\<lambda>qsub_job_path.
     and_then (subscript rule_conf ''queue'') (\<lambda>queue.
     and_then (subscript rule_conf ''threads'') (\<lambda>threads.
     and_then (get_default rule_conf ''extra_parameters'' (SStr [])) (\<lambda>extra_parameters.
       Inr [''dep_str'' \<mapsto> SStr (dep_str self),
            ''job_name'' \<mapsto> SStr (''snakemake_'' @ rule self),
            ''qsub_job_path'' \<mapsto> qsub_job_path,
            ''script_name'' \<mapsto> SStr (scriptname self),
            ''queue'' \<mapsto> queue,
            ''threads'' \<mapsto> threads,
            ''log_file'' \<mapsto> SStr (if length (ofiles self) > 0 then ofiles self ! 0 @ ''-qsub.out''
                                   else ''snakemake-'' @ rule self @ ''-qsub.out''),
            ''err_file'' \<mapsto> SStr (if length (ofiles self) > 0 then ofiles self ! 0 @ ''-qsub.err''
                                   else ''snakemake-'' @ rule self @ ''-qsub.err''),
            ''extra_parameters'' \<mapsto> extra_parameters])))))"

text \<open>
  The format string of the qsub script. A backslash at the end of a line inside the
  triple-quoted string joins the lines; the twenty spaces that indent the next line stay.
\<close>

definition qsub_template :: "piece list" where
  "qsub_template =
     [Lit ''qsub -o '', Field ''log_file'', Lit '' -e '', Field ''err_file'', Lit '' '',
      Field ''dep_str'', Lit '' -q '', Field ''queue'', Lit '' -pe smp '', Field ''threads'',
      Lit ('' '' @ replicate 20 CHR '' '' @ ''-N ''), Field ''job_name'', Lit '' '',
      Field ''extra_parameters'', Lit '' '', Field ''qsub_job_path'',
      Lit ('' '' @ replicate 20 CHR '' '' @ [CHR 0x27]), Field ''script_name'', Lit [CHR 0x27]]"

definition qsub_cmd :: "snake_job_sub \<Rightarrow> error + string" where
  "qsub_cmd self =
     and_then (resolve_rule_conf (config self) (rule self)) (\<lambda>rule_conf.
     and_then (qsub_attributes self rule_conf) (\<lambda>attributes.
       format_template qsub_template attributes))"

text \<open>The same for the sbatch script, which has no \<open>err_file\<close>.\<close>

definition sbatch_attributes :: "snake_job_sub \<Rightarrow> conf_value \<Rightarrow> error + (string \<rightharpoonup> scalar)" where
  "sbatch_attributes self rule_conf =
     and_then (config_subscript (config self) ''sbatch_general'') (\<lambda>general.
     and_then (subscript general ''wrapper_script'') (\<lambda>sbatch_job_path.
     and_then (subscript rule_conf ''days'') (\<lambda>days.
     and_then (subscript rule_conf ''hours'') (\<lambda>hours.
     and_then (subscript rule_conf ''minutes'') (\<lambda>minutes.
     and_then (subscript rule_conf ''partition'') (\<lambda>partition.
     and_then (subscript rule_conf ''cores'') (\<lambda>cores.
     and_then (config_subscript (config self) ''sbatch_general'') (\<lambda>general'.
     and_then (subscript general' ''account'') (\<lambda>account.
     and_then (get_default rule_conf ''extra_parameters'' (SStr [])) (\<lambda>extra_parameters.
       Inr [''dep_str'' \<mapsto> SStr (dep_str self),
            ''job_name'' \<mapsto> SStr (''snakemake_'' @ rule self),
            ''sbatch_job_path'' \<mapsto> sbatch_job_path,
            ''script_name'' \<mapsto> SStr (scriptname self),
            ''days'' \<mapsto> days,
            ''hours'' \<mapsto> hours,
            ''minutes'' \<mapsto> minutes,
            ''partition'' \<mapsto> partition,
            ''cores'' \<mapsto> cores,
            ''account'' \<mapsto> account,
            ''log_file'' \<mapsto> SStr (if length (ofiles self) > 0 then ofiles self ! 0 @ ''-slurm.out''
                                   else ''snakemake-'' @ rule self @ ''-slurm.out''),
            ''extra_parameters'' \<mapsto> extra_parameters]))))))))))"

definition sbatch_template :: "piece list" where
  "sbatch_template =
     [Lit ''sbatch --output='', Field ''log_file'', Lit '' '', Field ''dep_str'',
      Lit '' -A '', Field ''account'', Lit '' -p '', Field ''partition'', Lit '' -n '',
      Field ''cores'', Lit '' -t '', Field ''days'', Lit ''-'', Field ''hours'', Lit '':'',
      Field ''minutes'', Lit ('':00 '' @ replicate 20 CHR '' '' @ ''-J ''), Field ''job_name'',
      Lit '' '', Field ''extra_parameters'', Lit '' '', Field ''sbatch_job_path'',
      Lit ('' '' @ replicate 20 CHR '' '' @ [CHR 0x27]), Field ''script_name'', Lit [CHR 0x27]]"

definition sbatch_cmd :: "snake_job_sub \<Rightarrow> error + string" where
  "sbatch_cmd self =
     and_then (resolve_rule_conf (config self) (rule self)) (\<lambda>rule_conf.
     and_then (sbatch_attributes self rule_conf) (\<lambda>attributes.
       format_template sbatch_template attributes))"

subsection \<open>\<open>schedule\<close>\<close>

text \<open>
  The last statement of \<open>schedule\<close>: the token at index \<open>idx\<close> of the captured output is
  read as an integer and printed; \<open>ValueError\<close> alone is caught, and answered by a
  \<open>print\<close> without \<open>file=\<close>, which writes to standard output, and \<open>sys.exit(2)\<close>.
\<close>

definition report_job_id :: "int \<Rightarrow> string \<Rightarrow> unit action" where
  "report_job_id idx out =
     (case py_index (py_split out) idx of
        Inl e \<Rightarrow> ([], Inl e)
      | Inr tok \<Rightarrow>
          (case py_int tok of
             Some n \<Rightarrow> ([Print Stdout (show_int n)], Inr ())
           | None \<Rightarrow> ([Print Stdout (''Not a submitted job: '' @ bytes_str out)],
                      Inl (SystemExit 2))))"

text \<open>
  The two \<open>schedule\<close> methods differ in the command they build and in the index of the
  token they read, and in nothing else: the directory of the first output file is made
  first, then the command is built from the configuration, echoed to standard error and
  run, then the job id is reported.
\<close>

definition ensure_output_dir :: "world \<Rightarrow> snake_job_sub \<Rightarrow> unit action" where
  "ensure_output_dir w self =
     (if length (ofiles self) > 0
      then make_dir w (dirname_abspath w (ofiles self ! 0))
      else ([], Inr ()))"

definition schedule_with ::
  "(snake_job_sub \<Rightarrow> error + string) \<Rightarrow> int \<Rightarrow> world \<Rightarrow> snake_job_sub \<Rightarrow> unit action" where
  "schedule_with build idx w self =
     seq (ensure_output_dir w self) (\<lambda>_.
     seq ([], build self) (\<lambda>cmd.
     seq ([Print Stderr cmd, Popen cmd], Inr (communicate w cmd)) (\<lambda>popenrv.
       report_job_id idx popenrv)))"

definition SnakeJobQsub_schedule :: "world \<Rightarrow> snake_job_sub \<Rightarrow> unit action" where
  "SnakeJobQsub_schedule = schedule_with qsub_cmd 2"

definition SnakeJobSbatch_schedule :: "world \<Rightarrow> snake_job_sub \<Rightarrow> unit action" where
  "SnakeJobSbatch_schedule = schedule_with sbatch_cmd (- 1)"

subsection \<open>The main program\<close>

text \<open>
  How a run of \<open>schedule\<close> ends: normally with status 0; \<open>UndefinedJobRule\<close> is caught, its
  message printed to standard error and the status is 2; \<open>sys.exit(n)\<close> ends with status
  \<open>n\<close>; any other exception is not caught, the interpreter writes the traceback and the
  status is 1.
\<close>

fun uncaught :: "error \<Rightarrow> effect list \<times> nat" where
  "uncaught (SystemExit n) = ([], n)"
| "uncaught e = ([Traceback e], 1)"

fun finish :: "error + unit \<Rightarrow> effect list \<times> nat" where
  "finish (Inr _) = ([], 0)"
| "finish (Inl (UndefinedJobRule m)) = ([Print Stderr m], 2)"
| "finish (Inl e) = uncaught e"

text \<open>
  The arguments are those \<open>argparse\<close> has parsed and the configuration is the one
  \<open>json.load\<close> has read. The job object is made outside the \<open>try\<close>.
\<close>

definition main_with ::
  "(world \<Rightarrow> string \<Rightarrow> string list option \<Rightarrow> config \<Rightarrow> snake_job_sub action) \<Rightarrow>
   (world \<Rightarrow> snake_job_sub \<Rightarrow> unit action) \<Rightarrow>
   world \<Rightarrow> config \<Rightarrow> string list \<Rightarrow> string \<Rightarrow> effect list \<times> nat" where
  "main_with init sched w conf deps snakescript =
     (case init w snakescript (Some deps) conf of
        (es, Inl e) \<Rightarrow> (es @ fst (uncaught e), snd (uncaught e))
      | (es, Inr sj) \<Rightarrow>
          (case sched w sj of
             (es', r) \<Rightarrow> (es @ es' @ fst (finish r), snd (finish r))))"

definition main_qsub :: "world \<Rightarrow> config \<Rightarrow> string list \<Rightarrow> string \<Rightarrow> effect list \<times> nat" where
  "main_qsub = main_with SnakeJobQsub_init SnakeJobQsub_schedule"

definition main_sbatch :: "world \<Rightarrow> config \<Rightarrow> string list \<Rightarrow> string \<Rightarrow> effect list \<times> nat" where
  "main_sbatch = main_with SnakeJobSbatch_init SnakeJobSbatch_schedule"

subsection \<open>The steps of a run\<close>

text \<open>
  The place of an effect in a run: reading the job properties (the metadata is parsed),
  making the output directory, printing to standard error (the echo of the command that
  was built, or the message of a caught \<open>UndefinedJobRule\<close>), running the command (the
  job is submitted), printing to standard output, and the traceback of the interpreter.
\<close>

fun phase :: "effect \<Rightarrow> nat" where
  "phase (ReadProperties _) = 1"
| "phase (MakeDirs _) = 2"
| "phase (Print Stderr _) = 3"
| "phase (Popen _) = 4"
| "phase (Print Stdout _) = 5"
| "phase (Traceback _) = 6"

text \<open>
  The directory step of \<open>schedule\<close> went through: there was no output file, or the
  directory was made, or it was there already.
\<close>

definition dir_step_ok :: "world \<Rightarrow> string list \<Rightarrow> bool" where
  "dir_step_ok w outs \<longleftrightarrow>
     outs = [] \<or> os_makedirs w (dirname_abspath w (outs ! 0)) = None
     \<or> os_makedirs w (dirname_abspath w (outs ! 0)) = Some EEXIST"

subsection \<open>Example runs\<close>

text \<open>
  A job of rule \<open>bwa\<close> with one output file, in an environment where the directory can
  be made and the submission tool answers \<open>out\<close>; the same where \<open>os.makedirs\<close> fails
  with \<open>EACCES\<close>; and a job with no output file.
\<close>

definition example_world :: "string \<Rightarrow> world" where
  "example_world out =
     \<lparr> read_job_properties =
         (\<lambda>f. Inr \<lparr> prop_rule = ''bwa'', prop_input = [''a.fq''], prop_output = [''out/a.bam''] \<rparr>),
       dirname_abspath = (\<lambda>p. ''/work/out''),
       os_makedirs = (\<lambda>d. None),
       communicate = (\<lambda>c. out) \<rparr>"

definition denied_world :: world where
  "denied_world = (example_world [])\<lparr> os_makedirs := (\<lambda>d. Some 13) \<rparr>"

definition no_output_world :: world where
  "no_output_world =
     (example_world [])\<lparr> read_job_properties :=
        (\<lambda>f. Inr \<lparr> prop_rule = ''bwa'', prop_input = [], prop_output = [] \<rparr>) \<rparr>"

definition example_qsub_config :: config where
  "example_qsub_config =
     [''qsub_general'' \<mapsto> CRec [''wrapper_script'' \<mapsto> SStr ''wrap.sh''],
      ''schedule_bwa'' \<mapsto> CRec [''queue'' \<mapsto> SStr ''all.q'', ''threads'' \<mapsto> SInt 4]]"

definition example_sbatch_config :: config where
  "example_sbatch_config =
     [''sbatch_general'' \<mapsto> CRec [''wrapper_script'' \<mapsto> SStr ''wrap.sh'', ''account'' \<mapsto> SStr ''b1''],
      ''schedule_bwa'' \<mapsto> CStr ''schedule_map'',
      ''schedule_map'' \<mapsto>
        CRec [''partition'' \<mapsto> SStr ''core'', ''cores'' \<mapsto> SInt 4, ''days'' \<mapsto> SInt 0,
              ''hours'' \<mapsto> SInt 1, ''minutes'' \<mapsto> SInt 30]]"

definition example_sbatch_record :: conf_value where
  "example_sbatch_record =
     CRec [''partition'' \<mapsto> SStr ''core'', ''cores'' \<mapsto> SInt 4, ''days'' \<mapsto> SInt 0,
           ''hours'' \<mapsto> SInt 1, ''minutes'' \<mapsto> SInt 30]"

definition dangling_config :: config where
  "dangling_config = [''schedule_bwa'' \<mapsto> CStr ''schedule_gone'']"

definition example_job :: "config \<Rightarrow> string \<Rightarrow> snake_job_sub" where
  "example_job conf deps =
     \<lparr> scriptname = ''job.sh'', rule = ''bwa'', ifiles = [''a.fq''], ofiles = [''out/a.bam''],
       dependencies = None, config = conf, dep_str = deps \<rparr>"

definition qsub_banner :: string where
  \<open>qsub_banner = ''Your job 12345 ("x") has been submitted''\<close>

definition sbatch_banner :: string where
  "sbatch_banner = ''Submitted batch job 98765''"

definition qsub_refusal :: string where
  "qsub_refusal = ''Unable to run job: denied''"

definition sbatch_refusal :: string where
  "sbatch_refusal = ''sbatch: error: invalid partition''"

section \<open>Properties\<close>

subsection \<open>Sequencing and the effects of the steps\<close>

lemma and_then_simps [simp]:
  "and_then (Inl e) f = Inl e"
  "and_then (Inr v) f = f v"
  by (simp_all add: and_then_def)

lemma seq_simps [simp]:
  "seq (es, Inl e) f = (es, Inl e)"
  "seq (es, Inr v) f = (es @ fst (f v), snd (f v))"
  by (simp_all add: seq_def split: prod.splits)

lemma printed_append [simp]: "printed st (xs @ ys) = printed st xs @ printed st ys"
  by (induction st xs rule: printed.induct) auto

lemma spawned_append [simp]: "spawned (xs @ ys) = spawned xs @ spawned ys"
  by (induction xs rule: spawned.induct) auto

lemma spawned_empty_iff: "spawned es = [] \<longleftrightarrow> (\<forall>c. Popen c \<notin> set es)"
  by (induction es rule: spawned.induct) auto

lemma SnakeJob_init_effects: "fst (SnakeJob_init w f deps conf) = [ReadProperties f]"
  by (simp add: SnakeJob_init_def)

lemma SnakeJobQsub_init_eq:
  "SnakeJobQsub_init w f deps conf =
     ([ReadProperties f],
      case read_job_properties w f of
        Inl e \<Rightarrow> Inl e
      | Inr p \<Rightarrow>
          Inr \<lparr> scriptname = f, rule = prop_rule p, ifiles = prop_input p, ofiles = prop_output p,
                dependencies = (case deps of None \<Rightarrow> None
                                | Some ds \<Rightarrow> if length ds < 1 then None else Some ds),
                config = conf,
                dep_str = qsub_dep_str (case deps of None \<Rightarrow> None
                                        | Some ds \<Rightarrow> if length ds < 1 then None else Some ds) \<rparr>)"
  by (cases "read_job_properties w f")
     (simp_all add: SnakeJobQsub_init_def SnakeJob_init_def snake_job.defs snake_job_sub.defs)

lemma SnakeJobSbatch_init_eq:
  "SnakeJobSbatch_init w f deps conf =
     ([ReadProperties f],
      case read_job_properties w f of
        Inl e \<Rightarrow> Inl e
      | Inr p \<Rightarrow>
          Inr \<lparr> scriptname = f, rule = prop_rule p, ifiles = prop_input p, ofiles = prop_output p,
                dependencies = (case deps of None \<Rightarrow> None
                                | Some ds \<Rightarrow> if length ds < 1 then None else Some ds),
                config = conf,
                dep_str = sbatch_dep_str (case deps of None \<Rightarrow> None
                                          | Some ds \<Rightarrow> if length ds < 1 then None else Some ds) \<rparr>)"
  by (cases "read_job_properties w f")
     (simp_all add: SnakeJobSbatch_init_def SnakeJob_init_def snake_job.defs snake_job_sub.defs)

subsection \<open>Dependencies\<close>

text \<open>
  C4. The dependency string of a job is empty exactly when the dependency list is absent
  or empty. For a list that is not empty the qsub script writes \<open>-hold_jid\<close>, a space and
  the ids joined by commas, and the sbatch script writes \<open>-d\<close>, a space and the ids, each
  with \<open>afterok:\<close> before it, joined by commas.
\<close>

theorem dependency_encoding:
  assumes "snd (SnakeJobQsub_init w f deps conf) = Inr qj"
    and "snd (SnakeJobSbatch_init w f deps conf) = Inr sj"
  shows "(dep_str qj = [] \<longleftrightarrow> deps = None \<or> deps = Some [])
       \<and> (dep_str sj = [] \<longleftrightarrow> deps = None \<or> deps = Some [])
       \<and> (\<forall>ds. deps = Some ds \<and> ds \<noteq> [] \<longrightarrow>
             dep_str qj = ''-hold_jid '' @ py_join '','' ds
           \<and> dep_str sj = ''-d '' @ py_join '','' (map (\<lambda>d. ''afterok:'' @ d) ds))"
proof -
  obtain p where p: "read_job_properties w f = Inr p"
    using assms(1) by (cases "read_job_properties w f") (simp_all add: SnakeJobQsub_init_eq)
  let ?norm = "case deps of None \<Rightarrow> None | Some ds \<Rightarrow> if length ds < 1 then None else Some ds"
  have q: "dep_str qj = qsub_dep_str ?norm"
    using assms(1) p by (auto simp: SnakeJobQsub_init_eq)
  have s: "dep_str sj = sbatch_dep_str ?norm"
    using assms(2) p by (auto simp: SnakeJobSbatch_init_eq)
  show ?thesis
    unfolding q s
    by (cases deps) (auto simp: qsub_dep_str_def sbatch_dep_str_def simp del: append.simps)
qed

theorem dependency_encoding_witness:
  "dep_str (projr (snd (SnakeJobQsub_init (example_world []) ''job.sh'' (Some [''5'', ''7'']) Map.empty)))
     = ''-hold_jid 5,7''
   \<and> dep_str (projr (snd (SnakeJobSbatch_init (example_world []) ''job.sh'' (Some [''5'', ''7'']) Map.empty)))
     = ''-d afterok:5,afterok:7''"
proof -
  obtain qj where q: "snd (SnakeJobQsub_init (example_world []) ''job.sh'' (Some [''5'', ''7'']) Map.empty) = Inr qj"
    by (simp add: SnakeJobQsub_init_eq example_world_def)
  obtain sj where s: "snd (SnakeJobSbatch_init (example_world []) ''job.sh'' (Some [''5'', ''7'']) Map.empty) = Inr sj"
    by (simp add: SnakeJobSbatch_init_eq example_world_def)
  from dependency_encoding [OF q s]
  have "dep_str qj = ''-hold_jid '' @ py_join '','' [''5'', ''7'']
      \<and> dep_str sj = ''-d '' @ py_join '','' (map (\<lambda>d. ''afterok:'' @ d) [''5'', ''7''])"
    by simp
  then show ?thesis
    using q s by simp
qed

subsection \<open>Resolution of the rule's resources\<close>

text \<open>
  C3. When the key \<open>schedule_<rule>\<close> holds a record, the lookup gives that record
  unchanged. When it holds a string that starts with \<open>schedule_\<close> and that string is a
  key of the table, the lookup gives what is stored under that second key; when that is a
  record, the result is the record and not the string.
\<close>

theorem resolve_present:
  "(conf (''schedule_'' @ r) = Some (CRec d) \<longrightarrow> resolve_rule_conf conf r = Inr (CRec d))
 \<and> (conf (''schedule_'' @ r) = Some (CStr s) \<and> startswith s ''schedule_'' \<and> conf s = Some target
      \<longrightarrow> resolve_rule_conf conf r = Inr target)
 \<and> (conf (''schedule_'' @ r) = Some (CStr s) \<and> startswith s ''schedule_'' \<and> conf s = Some (CRec d)
      \<longrightarrow> resolve_rule_conf conf r = Inr (CRec d) \<and> resolve_rule_conf conf r \<noteq> Inr (CStr s))"
  by (simp add: resolve_rule_conf_def)

theorem resolve_present_witness:
  "resolve_rule_conf example_qsub_config ''bwa''
     = Inr (CRec [''queue'' \<mapsto> SStr ''all.q'', ''threads'' \<mapsto> SInt 4])
 \<and> resolve_rule_conf example_sbatch_config ''bwa''
     = Inr (CRec [''partition'' \<mapsto> SStr ''core'', ''cores'' \<mapsto> SInt 4, ''days'' \<mapsto> SInt 0,
                  ''hours'' \<mapsto> SInt 1, ''minutes'' \<mapsto> SInt 30])"
proof -
  have a: "example_qsub_config (''schedule_'' @ ''bwa'')
             = Some (CRec [''queue'' \<mapsto> SStr ''all.q'', ''threads'' \<mapsto> SInt 4])"
    by (simp add: example_qsub_config_def)
  have b: "example_sbatch_config (''schedule_'' @ ''bwa'') = Some (CStr ''schedule_map'')"
    by (simp add: example_sbatch_config_def)
  have c: "startswith ''schedule_map'' ''schedule_''"
    by (simp add: startswith_def)
  have d: "example_sbatch_config ''schedule_map''
             = Some (CRec [''partition'' \<mapsto> SStr ''core'', ''cores'' \<mapsto> SInt 4, ''days'' \<mapsto> SInt 0,
                           ''hours'' \<mapsto> SInt 1, ''minutes'' \<mapsto> SInt 30])"
    by (simp add: example_sbatch_config_def)
  show ?thesis
    using resolve_present [of example_qsub_config "''bwa''" _ "''x''"] a
      resolve_present [of example_sbatch_config "''bwa''" _ "''schedule_map''"] b c d
    by blast
qed

text \<open>
  C5. When the key \<open>schedule_<rule>\<close> holds a string that starts with \<open>schedule_\<close> and
  that string is not a key of the table, the lookup raises \<open>UndefinedJobRule\<close>, and the
  message names the string, which is another key than the rule's own.
\<close>

theorem resolve_dangling_redirect:
  assumes "conf (''schedule_'' @ r) = Some (CStr s)"
    and "startswith s ''schedule_''"
    and "conf s = None"
  shows "resolve_rule_conf conf r = Inl (UndefinedJobRule (''No schedule config found for '' @ s))
       \<and> s \<noteq> ''schedule_'' @ r
       \<and> resolve_rule_conf conf r
           \<noteq> Inl (UndefinedJobRule (''No schedule config found for schedule_'' @ r))"
proof -
  have ne: "s \<noteq> ''schedule_'' @ r"
    using assms(1,3) by auto
  have "resolve_rule_conf conf r = Inl (UndefinedJobRule (''No schedule config found for '' @ s))"
    using assms by (simp add: resolve_rule_conf_def)
  with ne show ?thesis by simp
qed

theorem resolve_dangling_redirect_witness:
  "resolve_rule_conf dangling_config ''bwa''
     = Inl (UndefinedJobRule ''No schedule config found for schedule_gone'')"
proof -
  have a: "dangling_config (''schedule_'' @ ''bwa'') = Some (CStr ''schedule_gone'')"
    by (simp add: dangling_config_def)
  have b: "startswith ''schedule_gone'' ''schedule_''"
    by (simp add: startswith_def)
  have c: "dangling_config ''schedule_gone'' = None"
    by (simp add: dangling_config_def)
  show ?thesis
    using resolve_dangling_redirect [OF a b c] by simp
qed

subsection \<open>The shape of a run\<close>

lemma set_spawned: "set (spawned es) = {c. Popen c \<in> set es}"
  by (induction es rule: spawned.induct) auto

lemma make_dir_effects: "fst (make_dir w d) = [MakeDirs d]"
  by (simp add: make_dir_def)

lemma ensure_output_dir_effects:
  "fst (ensure_output_dir w self) =
     (if ofiles self = [] then [] else [MakeDirs (dirname_abspath w (ofiles self ! 0))])"
  by (simp add: ensure_output_dir_def make_dir_effects)

lemma ensure_output_dir_ok:
  "dir_step_ok w (ofiles self) \<Longrightarrow> snd (ensure_output_dir w self) = Inr ()"
  by (auto simp: ensure_output_dir_def dir_step_ok_def make_dir_def)

lemma ensure_output_dir_fails:
  assumes "\<not> dir_step_ok w (ofiles self)"
  shows "\<exists>errno. errno \<noteq> EEXIST \<and> snd (ensure_output_dir w self) = Inl (OSError errno)"
proof (cases "os_makedirs w (dirname_abspath w (ofiles self ! 0))")
  case None
  with assms show ?thesis by (simp add: dir_step_ok_def)
next
  case (Some errno)
  with assms have "errno \<noteq> EEXIST" "ofiles self \<noteq> []"
    by (auto simp: dir_step_ok_def)
  with Some show ?thesis
    by (auto simp: ensure_output_dir_def make_dir_def)
qed

lemma report_job_id_cases:
  "report_job_id idx out = ([], Inl IndexError)
   \<or> (\<exists>n. report_job_id idx out = ([Print Stdout (show_int n)], Inr ()))
   \<or> report_job_id idx out
       = ([Print Stdout (''Not a submitted job: '' @ bytes_str out)], Inl (SystemExit 2))"
  by (auto simp: report_job_id_def py_index_def split: option.splits)

lemma spawned_report [simp]: "spawned (fst (report_job_id idx out)) = []"
  using report_job_id_cases [of idx out] by auto

lemma printed_stderr_report [simp]: "printed Stderr (fst (report_job_id idx out)) = []"
  using report_job_id_cases [of idx out] by auto

lemma spawned_ensure [simp]: "spawned (fst (ensure_output_dir w self)) = []"
  by (simp add: ensure_output_dir_effects)

lemma printed_ensure [simp]: "printed st (fst (ensure_output_dir w self)) = []"
  by (simp add: ensure_output_dir_effects)

lemma spawned_uncaught [simp]: "spawned (fst (uncaught e)) = []"
  by (cases e) simp_all

lemma printed_uncaught [simp]: "printed st (fst (uncaught e)) = []"
  by (cases e) simp_all

lemma spawned_finish [simp]: "spawned (fst (finish r)) = []"
  by (cases r rule: finish.cases) simp_all

lemma no_Popen_report: "Popen c \<notin> set (fst (report_job_id idx out))"
  using report_job_id_cases [of idx out] by auto

lemma no_Popen_uncaught: "Popen c \<notin> set (fst (uncaught e))"
  by (cases e) simp_all

lemma no_Popen_finish: "Popen c \<notin> set (fst (finish r))"
  by (cases r rule: finish.cases) simp_all

lemma printed_stdout_finish [simp]: "printed Stdout (fst (finish r)) = []"
  by (cases r rule: finish.cases) simp_all

text \<open>\<open>schedule\<close>, statement by statement.\<close>

lemma schedule_with_eq:
  "schedule_with build idx w self =
     (case snd (ensure_output_dir w self) of
        Inl e \<Rightarrow> (fst (ensure_output_dir w self), Inl e)
      | Inr _ \<Rightarrow>
          (case build self of
             Inl e \<Rightarrow> (fst (ensure_output_dir w self), Inl e)
           | Inr cmd \<Rightarrow>
               (fst (ensure_output_dir w self) @ [Print Stderr cmd, Popen cmd]
                  @ fst (report_job_id idx (communicate w cmd)),
                snd (report_job_id idx (communicate w cmd)))))"
proof (cases "ensure_output_dir w self")
  case (Pair d r)
  then show ?thesis
    by (cases r; cases "build self") (simp_all add: schedule_with_def)
qed

lemma schedule_with_Popen:
  assumes "Popen cmd \<in> set (fst (schedule_with build idx w self))"
  shows "schedule_with build idx w self =
           (fst (ensure_output_dir w self) @ [Print Stderr cmd, Popen cmd]
              @ fst (report_job_id idx (communicate w cmd)),
            snd (report_job_id idx (communicate w cmd)))"
proof -
  have no_e: "Popen cmd \<notin> set (fst (ensure_output_dir w self))"
    by (simp add: ensure_output_dir_effects)
  have no_r: "Popen cmd \<notin> set (fst (report_job_id idx out))" for out
    by (rule no_Popen_report)
  show ?thesis
  proof (cases "snd (ensure_output_dir w self)")
    case (Inl e)
    with assms no_e show ?thesis by (simp add: schedule_with_eq)
  next
    case (Inr u)
    show ?thesis
    proof (cases "build self")
      case (Inl e)
      with assms no_e Inr show ?thesis by (simp add: schedule_with_eq)
    next
      case built: (Inr c)
      with assms no_e no_r Inr have "c = cmd"
        by (auto simp: schedule_with_eq)
      with built Inr show ?thesis by (simp add: schedule_with_eq)
    qed
  qed
qed

text \<open>The main program: the job object is made, \<open>schedule\<close> runs, the run ends.\<close>

lemma main_with_unreadable:
  assumes "init = SnakeJobQsub_init \<or> init = SnakeJobSbatch_init"
    and "read_job_properties w script = Inl e"
  shows "main_with init sched w conf deps script
           = (ReadProperties script # fst (uncaught e), snd (uncaught e))"
  using assms
  by (auto simp: main_with_def SnakeJobQsub_init_eq SnakeJobSbatch_init_eq)

lemma init_job:
  assumes "init = SnakeJobQsub_init \<or> init = SnakeJobSbatch_init"
    and "read_job_properties w script = Inr p"
  shows "\<exists>sj. rule sj = prop_rule p \<and> ofiles sj = prop_output p \<and> config sj = conf
            \<and> init w script (Some deps) conf = ([ReadProperties script], Inr sj)"
  using assms by (auto simp: SnakeJobQsub_init_eq SnakeJobSbatch_init_eq)

lemma main_with_job:
  assumes "init w script (Some deps) conf = ([ReadProperties script], Inr sj)"
  shows "main_with init sched w conf deps script
           = (ReadProperties script # fst (sched w sj) @ fst (finish (snd (sched w sj))),
              snd (finish (snd (sched w sj))))"
  using assms by (simp add: main_with_def split: prod.splits)

lemma main_with_readable:
  assumes "init = SnakeJobQsub_init \<or> init = SnakeJobSbatch_init"
    and "read_job_properties w script = Inr p"
  shows "\<exists>sj. rule sj = prop_rule p \<and> ofiles sj = prop_output p \<and> config sj = conf
            \<and> main_with init sched w conf deps script
                = (ReadProperties script # fst (sched w sj) @ fst (finish (snd (sched w sj))),
                   snd (finish (snd (sched w sj))))"
proof -
  from init_job [OF assms, of conf deps]
  obtain sj where sj: "rule sj = prop_rule p" "ofiles sj = prop_output p" "config sj = conf"
    "init w script (Some deps) conf = ([ReadProperties script], Inr sj)"
    by blast
  have "main_with init sched w conf deps script
          = (ReadProperties script # fst (sched w sj) @ fst (finish (snd (sched w sj))),
             snd (finish (snd (sched w sj))))"
    using sj(4) by (rule main_with_job)
  with sj(1-3) show ?thesis
    by blast
qed

lemma main_with_Popen:
  assumes init: "init = SnakeJobQsub_init \<or> init = SnakeJobSbatch_init"
    and sub: "Popen cmd \<in> set (fst (main_with init (schedule_with build idx) w conf deps script))"
  shows "\<exists>pre. printed Stdout pre = [] \<and> printed Stderr pre = [] \<and> spawned pre = []
           \<and> main_with init (schedule_with build idx) w conf deps script
               = (pre @ [Print Stderr cmd, Popen cmd]
                    @ fst (report_job_id idx (communicate w cmd))
                    @ fst (finish (snd (report_job_id idx (communicate w cmd)))),
                  snd (finish (snd (report_job_id idx (communicate w cmd)))))"
proof (cases "read_job_properties w script")
  case (Inl e)
  with sub no_Popen_uncaught [of cmd e] show ?thesis
    by (simp add: main_with_unreadable [OF init Inl])
next
  case (Inr p)
  from main_with_readable [OF init Inr, of conf "schedule_with build idx" deps]
  obtain sj where run:
    "main_with init (schedule_with build idx) w conf deps script
       = (ReadProperties script # fst (schedule_with build idx w sj)
            @ fst (finish (snd (schedule_with build idx w sj))),
          snd (finish (snd (schedule_with build idx w sj))))"
    by blast
  from sub run no_Popen_finish [of cmd "snd (schedule_with build idx w sj)"]
  have "Popen cmd \<in> set (fst (schedule_with build idx w sj))"
    by auto
  from schedule_with_Popen [OF this]
  have "main_with init (schedule_with build idx) w conf deps script
          = ((ReadProperties script # fst (ensure_output_dir w sj)) @ [Print Stderr cmd, Popen cmd]
               @ fst (report_job_id idx (communicate w cmd))
               @ fst (finish (snd (report_job_id idx (communicate w cmd)))),
             snd (finish (snd (report_job_id idx (communicate w cmd)))))"
    using run by simp
  moreover have "printed Stdout (ReadProperties script # fst (ensure_output_dir w sj)) = []"
    "printed Stderr (ReadProperties script # fst (ensure_output_dir w sj)) = []"
    "spawned (ReadProperties script # fst (ensure_output_dir w sj)) = []"
    by simp_all
  ultimately show ?thesis by blast
qed

lemmas qsub_submitted =
  main_with_Popen [where init = SnakeJobQsub_init and build = qsub_cmd and idx = 2,
    folded SnakeJobQsub_schedule_def main_qsub_def, simplified]

lemmas sbatch_submitted =
  main_with_Popen [where init = SnakeJobSbatch_init and build = sbatch_cmd and idx = "- 1",
    folded SnakeJobSbatch_schedule_def main_sbatch_def, simplified]

subsection \<open>Reading the job id\<close>

lemma third_token:
  "3 \<le> length toks \<Longrightarrow> py_index toks 2 = Inr (toks ! 2)"
  by (simp add: py_index_def)

lemma last_token:
  "toks \<noteq> [] \<Longrightarrow> py_index toks (- 1) = Inr (last toks)"
  by (cases toks rule: rev_cases) (simp_all add: py_index_def nat_add_distrib)

lemma too_few_tokens:
  "length toks < 3 \<Longrightarrow> py_index toks 2 = Inl IndexError"
  "py_index [] (- 1) = (Inl IndexError :: error + 'a)"
  by (simp_all add: py_index_def)

lemma digit_char_code: "d < 10 \<Longrightarrow> (of_char (digit_char d) :: nat) = 48 + d"
proof -
  assume "d < 10"
  then have "d = 0 \<or> d = 1 \<or> d = 2 \<or> d = 3 \<or> d = 4
      \<or> d = 5 \<or> d = 6 \<or> d = 7 \<or> d = 8 \<or> d = 9"
    by arith
  then show ?thesis
    by (elim disjE) (simp_all add: digit_char_def)
qed

lemma show_nat_first: "\<exists>d ds. d < 10 \<and> show_nat n = digit_char d # ds"
proof (induction n rule: show_nat.induct)
  case (1 n)
  show ?case
  proof (cases "n < 10")
    case True
    then have "show_nat n = [digit_char n]"
      by (subst show_nat.simps) simp
    with True show ?thesis by blast
  next
    case False
    with "1.IH" obtain d ds where d: "d < 10" "show_nat (n div 10) = digit_char d # ds"
      by blast
    from False have "show_nat n = show_nat (n div 10) @ [digit_char (n mod 10)]"
      by (subst show_nat.simps) simp
    with d have "show_nat n = digit_char d # (ds @ [digit_char (n mod 10)])"
      by simp
    with d(1) show ?thesis by blast
  qed
qed

lemma show_int_first: "\<exists>c cs. show_int i = c # cs \<and> (of_char c :: nat) < 58"
proof -
  obtain d ds where d: "d < 10" "show_nat (nat i) = digit_char d # ds"
    using show_nat_first by blast
  show ?thesis
  proof (cases "i < 0")
    case True
    then have "show_int i = CHR ''-'' # show_nat (nat (- i))"
      by (simp add: show_int_def)
    moreover have "(of_char CHR ''-'' :: nat) < 58"
      by simp
    ultimately show ?thesis by blast
  next
    case False
    with d have "show_int i = digit_char d # ds"
      by (simp add: show_int_def)
    moreover have "(of_char (digit_char d) :: nat) < 58"
      using d(1) by (simp add: digit_char_code)
    ultimately show ?thesis by blast
  qed
qed

lemma diagnostic_not_integer: "''Not a submitted job: '' @ text \<noteq> show_int i"
proof
  assume eq: "''Not a submitted job: '' @ text = show_int i"
  obtain c cs where c: "show_int i = c # cs" "(of_char c :: nat) < 58"
    using show_int_first by blast
  from eq c(1) have "c = CHR ''N''"
    by simp
  with c(2) show False
    by simp
qed

lemma report_parsed:
  "py_index (py_split out) idx = Inr tok \<Longrightarrow> py_int tok = Some n
     \<Longrightarrow> report_job_id idx out = ([Print Stdout (show_int n)], Inr ())"
  by (simp add: report_job_id_def)

lemma report_unparsed:
  "py_index (py_split out) idx = Inr tok \<Longrightarrow> py_int tok = None
     \<Longrightarrow> report_job_id idx out
           = ([Print Stdout (''Not a submitted job: '' @ bytes_str out)], Inl (SystemExit 2))"
  by (simp add: report_job_id_def)

lemma report_no_token:
  "py_index (py_split out) idx = Inl e \<Longrightarrow> report_job_id idx out = ([], Inl e)"
  by (simp add: report_job_id_def)

text \<open>The example runs reach the submission.\<close>

lemma example_qsub_run_submits:
  "\<exists>cmd. Popen cmd \<in> set (fst (main_qsub (example_world out) example_qsub_config deps ''job.sh''))"
proof -
  have "spawned (fst (main_qsub (example_world out) example_qsub_config deps ''job.sh'')) \<noteq> []"
    by (simp add: main_qsub_def main_with_def SnakeJobQsub_init_eq example_world_def
          SnakeJobQsub_schedule_def schedule_with_eq ensure_output_dir_def make_dir_def
          qsub_cmd_def resolve_rule_conf_def example_qsub_config_def qsub_attributes_def
          config_subscript_def subscript_def get_default_def qsub_template_def)
  then show ?thesis
    by (simp add: spawned_empty_iff)
qed

lemma example_sbatch_run_submits:
  "\<exists>cmd. Popen cmd \<in> set (fst (main_sbatch (example_world out) example_sbatch_config deps ''job.sh''))"
proof -
  have "spawned (fst (main_sbatch (example_world out) example_sbatch_config deps ''job.sh'')) \<noteq> []"
    by (simp add: main_sbatch_def main_with_def SnakeJobSbatch_init_eq example_world_def
          SnakeJobSbatch_schedule_def schedule_with_eq ensure_output_dir_def make_dir_def
          sbatch_cmd_def resolve_rule_conf_def example_sbatch_config_def sbatch_attributes_def
          config_subscript_def subscript_def get_default_def sbatch_template_def startswith_def)
  then show ?thesis
    by (simp add: spawned_empty_iff)
qed

lemma communicate_example [simp]: "communicate (example_world out) cmd = out"
  by (simp add: example_world_def)

lemma qsub_banner_tokens:
  "py_split qsub_banner
     = [''Your'', ''job'', ''12345'', [CHR 0x28, CHR 0x22, CHR ''x'', CHR 0x22, CHR 0x29],
        ''has'', ''been'', ''submitted'']"
  by (simp add: qsub_banner_def py_split_def is_space_def)

lemma sbatch_banner_tokens:
  "py_split sbatch_banner = [''Submitted'', ''batch'', ''job'', ''98765'']"
  by (simp add: sbatch_banner_def py_split_def is_space_def)

lemma py_int_12345: "py_int ''12345'' = Some 12345"
  by (simp add: py_int_def strip_ws_def is_space_def is_digit_def digit_val_def)

lemma py_int_98765: "py_int ''98765'' = Some 98765"
  by (simp add: py_int_def strip_ws_def is_space_def is_digit_def digit_val_def)

lemma show_int_12345: "show_int 12345 = ''12345''"
  by (simp add: show_int_def show_nat.simps digit_char_def)

lemma show_int_98765: "show_int 98765 = ''98765''"
  by (simp add: show_int_def show_nat.simps digit_char_def)

text \<open>
  C1. Once the command has been run, the qsub script reads the third whitespace-delimited
  token of the captured output and the sbatch script the last one; when that token
  parses as an integer, the only thing the run writes to standard output is that integer
  in decimal, and the run ends with status 0.
\<close>

theorem job_id_printed:
  "(Popen cmd \<in> set (fst (main_qsub w conf deps script))
      \<and> 3 \<le> length (py_split (communicate w cmd))
      \<and> py_int (py_split (communicate w cmd) ! 2) = Some n
    \<longrightarrow> printed Stdout (fst (main_qsub w conf deps script)) = [show_int n]
      \<and> snd (main_qsub w conf deps script) = 0)
 \<and> (Popen cmd \<in> set (fst (main_sbatch w conf deps script))
      \<and> py_split (communicate w cmd) \<noteq> []
      \<and> py_int (last (py_split (communicate w cmd))) = Some n
    \<longrightarrow> printed Stdout (fst (main_sbatch w conf deps script)) = [show_int n]
      \<and> snd (main_sbatch w conf deps script) = 0)"
proof (rule conjI; rule impI; elim conjE)
  assume sub: "Popen cmd \<in> set (fst (main_qsub w conf deps script))"
    and len: "3 \<le> length (py_split (communicate w cmd))"
    and tok: "py_int (py_split (communicate w cmd) ! 2) = Some n"
  have "report_job_id 2 (communicate w cmd) = ([Print Stdout (show_int n)], Inr ())"
    using third_token [OF len] tok by (rule report_parsed)
  with qsub_submitted [OF sub]
  show "printed Stdout (fst (main_qsub w conf deps script)) = [show_int n]
      \<and> snd (main_qsub w conf deps script) = 0"
    by auto
next
  assume sub: "Popen cmd \<in> set (fst (main_sbatch w conf deps script))"
    and len: "py_split (communicate w cmd) \<noteq> []"
    and tok: "py_int (last (py_split (communicate w cmd))) = Some n"
  have "report_job_id (- 1) (communicate w cmd) = ([Print Stdout (show_int n)], Inr ())"
    using last_token [OF len] tok by (rule report_parsed)
  with sbatch_submitted [OF sub]
  show "printed Stdout (fst (main_sbatch w conf deps script)) = [show_int n]
      \<and> snd (main_sbatch w conf deps script) = 0"
    by auto
qed

theorem job_id_printed_witness:
  "printed Stdout (fst (main_qsub (example_world qsub_banner) example_qsub_config [''5'', ''7''] ''job.sh''))
     = [''12345'']
 \<and> snd (main_qsub (example_world qsub_banner) example_qsub_config [''5'', ''7''] ''job.sh'') = 0
 \<and> printed Stdout (fst (main_sbatch (example_world sbatch_banner) example_sbatch_config [''5'', ''7''] ''job.sh''))
     = [''98765'']
 \<and> snd (main_sbatch (example_world sbatch_banner) example_sbatch_config [''5'', ''7''] ''job.sh'') = 0"
proof -
  obtain c1 where c1:
    "Popen c1 \<in> set (fst (main_qsub (example_world qsub_banner) example_qsub_config [''5'', ''7''] ''job.sh''))"
    using example_qsub_run_submits by blast
  obtain c2 where c2:
    "Popen c2 \<in> set (fst (main_sbatch (example_world sbatch_banner) example_sbatch_config [''5'', ''7''] ''job.sh''))"
    using example_sbatch_run_submits by blast
  have q: "3 \<le> length (py_split (communicate (example_world qsub_banner) c1))"
    "py_int (py_split (communicate (example_world qsub_banner) c1) ! 2) = Some 12345"
    by (simp_all add: qsub_banner_tokens py_int_12345)
  have s: "py_split (communicate (example_world sbatch_banner) c2) \<noteq> []"
    "py_int (last (py_split (communicate (example_world sbatch_banner) c2))) = Some 98765"
    by (simp_all add: sbatch_banner_tokens py_int_98765)
  have "printed Stdout (fst (main_qsub (example_world qsub_banner) example_qsub_config [''5'', ''7''] ''job.sh''))
          = [show_int 12345]
      \<and> snd (main_qsub (example_world qsub_banner) example_qsub_config [''5'', ''7''] ''job.sh'') = 0"
    using job_id_printed [of c1 "example_world qsub_banner" example_qsub_config "[''5'', ''7'']" "''job.sh''" 12345]
      c1 q by blast
  moreover
  have "printed Stdout (fst (main_sbatch (example_world sbatch_banner) example_sbatch_config [''5'', ''7''] ''job.sh''))
          = [show_int 98765]
      \<and> snd (main_sbatch (example_world sbatch_banner) example_sbatch_config [''5'', ''7''] ''job.sh'') = 0"
    using job_id_printed [of c2 "example_world sbatch_banner" example_sbatch_config "[''5'', ''7'']" "''job.sh''" 98765]
      c2 s by blast
  ultimately show ?thesis
    unfolding show_int_12345 show_int_98765 by blast
qed

text \<open>
  C10. When the captured output has fewer than three tokens (qsub script) or no token at
  all (sbatch script), the index raises \<open>IndexError\<close>, which the \<open>try\<close> does not catch:
  nothing is written to standard output, the diagnostic is not printed, the interpreter
  writes a traceback and the status is 1, not 2.
\<close>

theorem too_few_tokens_unhandled:
  "(Popen cmd \<in> set (fst (main_qsub w conf deps script))
      \<and> length (py_split (communicate w cmd)) < 3
    \<longrightarrow> report_job_id 2 (communicate w cmd) = ([], Inl IndexError)
      \<and> printed Stdout (fst (main_qsub w conf deps script)) = []
      \<and> last (fst (main_qsub w conf deps script)) = Traceback IndexError
      \<and> snd (main_qsub w conf deps script) = 1)
 \<and> (Popen cmd \<in> set (fst (main_sbatch w conf deps script))
      \<and> py_split (communicate w cmd) = []
    \<longrightarrow> report_job_id (- 1) (communicate w cmd) = ([], Inl IndexError)
      \<and> printed Stdout (fst (main_sbatch w conf deps script)) = []
      \<and> last (fst (main_sbatch w conf deps script)) = Traceback IndexError
      \<and> snd (main_sbatch w conf deps script) = 1)"
proof (rule conjI; rule impI; elim conjE)
  assume sub: "Popen cmd \<in> set (fst (main_qsub w conf deps script))"
    and len: "length (py_split (communicate w cmd)) < 3"
  have r: "report_job_id 2 (communicate w cmd) = ([], Inl IndexError)"
    using too_few_tokens(1) [OF len] by (rule report_no_token)
  with qsub_submitted [OF sub]
  show "report_job_id 2 (communicate w cmd) = ([], Inl IndexError)
      \<and> printed Stdout (fst (main_qsub w conf deps script)) = []
      \<and> last (fst (main_qsub w conf deps script)) = Traceback IndexError
      \<and> snd (main_qsub w conf deps script) = 1"
    by auto
next
  assume sub: "Popen cmd \<in> set (fst (main_sbatch w conf deps script))"
    and len: "py_split (communicate w cmd) = []"
  have "py_index (py_split (communicate w cmd)) (- 1) = Inl IndexError"
    unfolding len by (rule too_few_tokens(2))
  then have r: "report_job_id (- 1) (communicate w cmd) = ([], Inl IndexError)"
    by (rule report_no_token)
  with sbatch_submitted [OF sub]
  show "report_job_id (- 1) (communicate w cmd) = ([], Inl IndexError)
      \<and> printed Stdout (fst (main_sbatch w conf deps script)) = []
      \<and> last (fst (main_sbatch w conf deps script)) = Traceback IndexError
      \<and> snd (main_sbatch w conf deps script) = 1"
    by auto
qed

theorem too_few_tokens_unhandled_witness:
  "printed Stdout (fst (main_qsub (example_world ''Segmentation fault'') example_qsub_config [] ''job.sh'')) = []
 \<and> snd (main_qsub (example_world ''Segmentation fault'') example_qsub_config [] ''job.sh'') = 1
 \<and> printed Stdout (fst (main_sbatch (example_world []) example_sbatch_config [] ''job.sh'')) = []
 \<and> snd (main_sbatch (example_world []) example_sbatch_config [] ''job.sh'') = 1"
proof -
  obtain c1 where c1:
    "Popen c1 \<in> set (fst (main_qsub (example_world ''Segmentation fault'') example_qsub_config [] ''job.sh''))"
    using example_qsub_run_submits by blast
  obtain c2 where c2:
    "Popen c2 \<in> set (fst (main_sbatch (example_world []) example_sbatch_config [] ''job.sh''))"
    using example_sbatch_run_submits by blast
  have q: "length (py_split (communicate (example_world ''Segmentation fault'') c1)) < 3"
    by (simp add: py_split_def is_space_def)
  have s: "py_split (communicate (example_world []) c2) = []"
    by (simp add: py_split_def)
  have "printed Stdout (fst (main_qsub (example_world ''Segmentation fault'') example_qsub_config [] ''job.sh'')) = []
      \<and> snd (main_qsub (example_world ''Segmentation fault'') example_qsub_config [] ''job.sh'') = 1"
    using too_few_tokens_unhandled [of c1 "example_world ''Segmentation fault''" example_qsub_config "[]" "''job.sh''"]
      c1 q by blast
  moreover
  have "printed Stdout (fst (main_sbatch (example_world []) example_sbatch_config [] ''job.sh'')) = []
      \<and> snd (main_sbatch (example_world []) example_sbatch_config [] ''job.sh'') = 1"
    using too_few_tokens_unhandled [of c2 "example_world []" example_sbatch_config "[]" "''job.sh''"]
      c2 s by blast
  ultimately show ?thesis by blast
qed

text \<open>
  C6, as the scripts have it. When the token that is read does not parse as an integer,
  the run prints one line, \<open>Not a submitted job:\<close> followed by what \<open>%s\<close> makes of the
  captured bytes, which is the literal \<open>b'...'\<close> with its escapes and not the text
  itself; the line is no integer, nothing else is written to standard output and the
  status is 2.
\<close>

theorem unparsed_token_diagnostic:
  "(Popen cmd \<in> set (fst (main_qsub w conf deps script))
      \<and> 3 \<le> length (py_split (communicate w cmd))
      \<and> py_int (py_split (communicate w cmd) ! 2) = None
    \<longrightarrow> printed Stdout (fst (main_qsub w conf deps script))
          = [''Not a submitted job: '' @ bytes_str (communicate w cmd)]
      \<and> snd (main_qsub w conf deps script) = 2)
 \<and> (Popen cmd \<in> set (fst (main_sbatch w conf deps script))
      \<and> py_split (communicate w cmd) \<noteq> []
      \<and> py_int (last (py_split (communicate w cmd))) = None
    \<longrightarrow> printed Stdout (fst (main_sbatch w conf deps script))
          = [''Not a submitted job: '' @ bytes_str (communicate w cmd)]
      \<and> snd (main_sbatch w conf deps script) = 2)
 \<and> ''Not a submitted job: '' @ bytes_str (communicate w cmd) \<noteq> show_int i"
proof (intro conjI)
  show "Popen cmd \<in> set (fst (main_qsub w conf deps script))
      \<and> 3 \<le> length (py_split (communicate w cmd))
      \<and> py_int (py_split (communicate w cmd) ! 2) = None
    \<longrightarrow> printed Stdout (fst (main_qsub w conf deps script))
          = [''Not a submitted job: '' @ bytes_str (communicate w cmd)]
      \<and> snd (main_qsub w conf deps script) = 2"
  proof (rule impI; elim conjE)
    assume sub: "Popen cmd \<in> set (fst (main_qsub w conf deps script))"
      and len: "3 \<le> length (py_split (communicate w cmd))"
      and tok: "py_int (py_split (communicate w cmd) ! 2) = None"
    have "report_job_id 2 (communicate w cmd)
            = ([Print Stdout (''Not a submitted job: '' @ bytes_str (communicate w cmd))],
               Inl (SystemExit 2))"
      using third_token [OF len] tok by (rule report_unparsed)
    with qsub_submitted [OF sub]
    show "printed Stdout (fst (main_qsub w conf deps script))
            = [''Not a submitted job: '' @ bytes_str (communicate w cmd)]
        \<and> snd (main_qsub w conf deps script) = 2"
      by auto
  qed
  show "Popen cmd \<in> set (fst (main_sbatch w conf deps script))
      \<and> py_split (communicate w cmd) \<noteq> []
      \<and> py_int (last (py_split (communicate w cmd))) = None
    \<longrightarrow> printed Stdout (fst (main_sbatch w conf deps script))
          = [''Not a submitted job: '' @ bytes_str (communicate w cmd)]
      \<and> snd (main_sbatch w conf deps script) = 2"
  proof (rule impI; elim conjE)
    assume sub: "Popen cmd \<in> set (fst (main_sbatch w conf deps script))"
      and len: "py_split (communicate w cmd) \<noteq> []"
      and tok: "py_int (last (py_split (communicate w cmd))) = None"
    have "report_job_id (- 1) (communicate w cmd)
            = ([Print Stdout (''Not a submitted job: '' @ bytes_str (communicate w cmd))],
               Inl (SystemExit 2))"
      using last_token [OF len] tok by (rule report_unparsed)
    with sbatch_submitted [OF sub]
    show "printed Stdout (fst (main_sbatch w conf deps script))
            = [''Not a submitted job: '' @ bytes_str (communicate w cmd)]
        \<and> snd (main_sbatch w conf deps script) = 2"
      by auto
  qed
  show "''Not a submitted job: '' @ bytes_str (communicate w cmd) \<noteq> show_int i"
    by (rule diagnostic_not_integer)
qed

lemma qsub_refusal_tokens: "py_split qsub_refusal = [''Unable'', ''to'', ''run'', ''job:'', ''denied'']"
  by (simp add: qsub_refusal_def py_split_def is_space_def)

lemma sbatch_refusal_tokens:
  "py_split sbatch_refusal = [''sbatch:'', ''error:'', ''invalid'', ''partition'']"
  by (simp add: sbatch_refusal_def py_split_def is_space_def)

lemma py_int_run: "py_int ''run'' = None"
  by (simp add: py_int_def strip_ws_def is_space_def is_digit_def)

lemma py_int_partition: "py_int ''partition'' = None"
  by (simp add: py_int_def strip_ws_def is_space_def is_digit_def)

lemma bytes_str_qsub_refusal:
  "bytes_str qsub_refusal = ''b'' @ [CHR 0x27] @ ''Unable to run job: denied'' @ [CHR 0x27]"
  by (simp add: bytes_str_def bytes_quote_def escape_byte_def Let_def qsub_refusal_def)

lemma bytes_str_sbatch_refusal:
  "bytes_str sbatch_refusal = ''b'' @ [CHR 0x27] @ ''sbatch: error: invalid partition'' @ [CHR 0x27]"
  by (simp add: bytes_str_def bytes_quote_def escape_byte_def Let_def sbatch_refusal_def)

theorem unparsed_token_diagnostic_witness:
  "printed Stdout (fst (main_qsub (example_world qsub_refusal) example_qsub_config [] ''job.sh''))
     = [''Not a submitted job: b'' @ [CHR 0x27] @ ''Unable to run job: denied'' @ [CHR 0x27]]
 \<and> snd (main_qsub (example_world qsub_refusal) example_qsub_config [] ''job.sh'') = 2
 \<and> printed Stdout (fst (main_sbatch (example_world sbatch_refusal) example_sbatch_config [] ''job.sh''))
     = [''Not a submitted job: b'' @ [CHR 0x27] @ ''sbatch: error: invalid partition'' @ [CHR 0x27]]
 \<and> snd (main_sbatch (example_world sbatch_refusal) example_sbatch_config [] ''job.sh'') = 2"
proof -
  obtain c1 where c1:
    "Popen c1 \<in> set (fst (main_qsub (example_world qsub_refusal) example_qsub_config [] ''job.sh''))"
    using example_qsub_run_submits by blast
  obtain c2 where c2:
    "Popen c2 \<in> set (fst (main_sbatch (example_world sbatch_refusal) example_sbatch_config [] ''job.sh''))"
    using example_sbatch_run_submits by blast
  have q: "3 \<le> length (py_split (communicate (example_world qsub_refusal) c1))"
    "py_int (py_split (communicate (example_world qsub_refusal) c1) ! 2) = None"
    by (simp_all add: qsub_refusal_tokens py_int_run)
  have s: "py_split (communicate (example_world sbatch_refusal) c2) \<noteq> []"
    "py_int (last (py_split (communicate (example_world sbatch_refusal) c2))) = None"
    by (simp_all add: sbatch_refusal_tokens py_int_partition)
  have "printed Stdout (fst (main_qsub (example_world qsub_refusal) example_qsub_config [] ''job.sh''))
          = [''Not a submitted job: '' @ bytes_str (communicate (example_world qsub_refusal) c1)]
      \<and> snd (main_qsub (example_world qsub_refusal) example_qsub_config [] ''job.sh'') = 2"
    using unparsed_token_diagnostic [of c1 "example_world qsub_refusal" example_qsub_config "[]" "''job.sh''"]
      c1 q by blast
  moreover
  have "printed Stdout (fst (main_sbatch (example_world sbatch_refusal) example_sbatch_config [] ''job.sh''))
          = [''Not a submitted job: '' @ bytes_str (communicate (example_world sbatch_refusal) c2)]
      \<and> snd (main_sbatch (example_world sbatch_refusal) example_sbatch_config [] ''job.sh'') = 2"
    using unparsed_token_diagnostic [of c2 "example_world sbatch_refusal" example_sbatch_config "[]" "''job.sh''"]
      c2 s by blast
  ultimately show ?thesis
    by (simp add: bytes_str_qsub_refusal bytes_str_sbatch_refusal)
qed

text \<open>
  The claim C6 as the specification words it, with the captured text itself after
  \<open>Not a submitted job:\<close>, fails on the refusal of the example.
\<close>

theorem raw_text_diagnostic_counterexample:
  "printed Stdout (fst (main_qsub (example_world qsub_refusal) example_qsub_config [] ''job.sh''))
     \<noteq> [''Not a submitted job: '' @ qsub_refusal]"
proof -
  obtain c1 where c1:
    "Popen c1 \<in> set (fst (main_qsub (example_world qsub_refusal) example_qsub_config [] ''job.sh''))"
    using example_qsub_run_submits by blast
  have "report_job_id 2 (communicate (example_world qsub_refusal) c1)
          = ([Print Stdout (''Not a submitted job: '' @ bytes_str qsub_refusal)], Inl (SystemExit 2))"
    by (simp add: report_job_id_def qsub_refusal_tokens py_index_def py_int_run)
  with qsub_submitted [OF c1]
  have "printed Stdout (fst (main_qsub (example_world qsub_refusal) example_qsub_config [] ''job.sh''))
          = [''Not a submitted job: '' @ bytes_str qsub_refusal]"
    by auto
  then show ?thesis
    unfolding bytes_str_qsub_refusal by (simp add: qsub_refusal_def)
qed

subsection \<open>A rule without configuration\<close>

lemma missing_key_build:
  assumes "config self (''schedule_'' @ rule self) = None"
  shows "qsub_cmd self
           = Inl (UndefinedJobRule (''No schedule config found for schedule_'' @ rule self))"
    and "sbatch_cmd self
           = Inl (UndefinedJobRule (''No schedule config found for schedule_'' @ rule self))"
  using assms by (simp_all add: qsub_cmd_def sbatch_cmd_def resolve_rule_conf_def)

lemma build_fails_schedule:
  assumes "build self = Inl e"
  shows "spawned (fst (schedule_with build idx w self)) = []"
    and "dir_step_ok w (ofiles self) \<Longrightarrow> snd (schedule_with build idx w self) = Inl e"
    and "\<not> dir_step_ok w (ofiles self) \<Longrightarrow>
           \<exists>errno. errno \<noteq> EEXIST \<and> snd (schedule_with build idx w self) = Inl (OSError errno)"
proof -
  show "spawned (fst (schedule_with build idx w self)) = []"
    using assms by (cases "snd (ensure_output_dir w self)") (simp_all add: schedule_with_eq)
  show "snd (schedule_with build idx w self) = Inl e" if "dir_step_ok w (ofiles self)"
    using assms ensure_output_dir_ok [OF that] by (simp add: schedule_with_eq)
  show "\<exists>errno. errno \<noteq> EEXIST \<and> snd (schedule_with build idx w self) = Inl (OSError errno)"
    if "\<not> dir_step_ok w (ofiles self)"
    using ensure_output_dir_fails [OF that] by (auto simp: schedule_with_eq)
qed

text \<open>
  C2, as the scripts have it. When the key \<open>schedule_<rule>\<close> is not in the table, no
  command is run. The directory of the first output file is made before the table is
  looked at: when that step goes through, \<open>schedule\<close> raises \<open>UndefinedJobRule\<close> with the
  message \<open>No schedule config found for schedule_<rule>\<close>; when \<open>os.makedirs\<close> fails
  with another error than \<open>EEXIST\<close>, \<open>schedule\<close> raises that \<open>OSError\<close> and the table is
  never looked at.
\<close>

theorem missing_rule_config:
  assumes "config self (''schedule_'' @ rule self) = None"
  shows "spawned (fst (SnakeJobQsub_schedule w self)) = []
       \<and> spawned (fst (SnakeJobSbatch_schedule w self)) = []
       \<and> (dir_step_ok w (ofiles self) \<longrightarrow>
            snd (SnakeJobQsub_schedule w self)
              = Inl (UndefinedJobRule (''No schedule config found for schedule_'' @ rule self))
          \<and> snd (SnakeJobSbatch_schedule w self)
              = Inl (UndefinedJobRule (''No schedule config found for schedule_'' @ rule self)))
       \<and> (\<not> dir_step_ok w (ofiles self) \<longrightarrow>
            (\<exists>errno. errno \<noteq> EEXIST \<and> snd (SnakeJobQsub_schedule w self) = Inl (OSError errno))
          \<and> (\<exists>errno. errno \<noteq> EEXIST \<and> snd (SnakeJobSbatch_schedule w self) = Inl (OSError errno)))"
  unfolding SnakeJobQsub_schedule_def SnakeJobSbatch_schedule_def
  using build_fails_schedule [where build = qsub_cmd and self = self and idx = 2 and w = w,
      OF missing_key_build(1) [OF assms]]
    build_fails_schedule [where build = sbatch_cmd and self = self and idx = "- 1" and w = w,
      OF missing_key_build(2) [OF assms]]
  by blast

lemma example_dir_step_ok: "dir_step_ok (example_world out) (ofiles (example_job conf ds))"
  by (simp add: dir_step_ok_def example_world_def)

theorem missing_rule_config_witness:
  "spawned (fst (SnakeJobQsub_schedule (example_world []) (example_job Map.empty []))) = []
 \<and> snd (SnakeJobQsub_schedule (example_world []) (example_job Map.empty []))
     = Inl (UndefinedJobRule ''No schedule config found for schedule_bwa'')
 \<and> snd (SnakeJobSbatch_schedule (example_world []) (example_job Map.empty []))
     = Inl (UndefinedJobRule ''No schedule config found for schedule_bwa'')"
proof -
  have a: "config (example_job Map.empty []) (''schedule_'' @ rule (example_job Map.empty [])) = None"
    by (simp add: example_job_def)
  have r: "rule (example_job Map.empty []) = ''bwa''"
    by (simp add: example_job_def)
  show ?thesis
    using missing_rule_config [OF a, of "example_world []"] example_dir_step_ok [of "[]" Map.empty "[]"]
    unfolding r by simp
qed

text \<open>
  The claim C2 as the specification words it fails where the directory cannot be made:
  the key is missing, and what \<open>schedule\<close> raises is the \<open>OSError\<close>.
\<close>

theorem missing_rule_config_counterexample:
  "config (example_job Map.empty []) (''schedule_'' @ rule (example_job Map.empty [])) = None
 \<and> snd (SnakeJobQsub_schedule denied_world (example_job Map.empty [])) = Inl (OSError 13)
 \<and> snd (SnakeJobSbatch_schedule denied_world (example_job Map.empty [])) = Inl (OSError 13)
 \<and> main_qsub denied_world Map.empty [] ''job.sh''
     = ([ReadProperties ''job.sh'', MakeDirs ''/work/out'', Traceback (OSError 13)], 1)"
  by (simp add: SnakeJobQsub_schedule_def SnakeJobSbatch_schedule_def schedule_with_eq
        ensure_output_dir_def make_dir_def denied_world_def example_world_def example_job_def
        EEXIST_def main_qsub_def main_with_def SnakeJobQsub_init_eq)

subsection \<open>The order of the steps\<close>

lemma finish_effects:
  "fst (finish r) = [] \<or> (\<exists>m. fst (finish r) = [Print Stderr m])
   \<or> (\<exists>e. fst (finish r) = [Traceback e])"
  by (cases r rule: finish.cases) simp_all

lemma finish_report:
  "fst (report_job_id idx out) @ fst (finish (snd (report_job_id idx out))) = [Traceback IndexError]
   \<or> (\<exists>s. fst (report_job_id idx out) @ fst (finish (snd (report_job_id idx out))) = [Print Stdout s])"
  using report_job_id_cases [of idx out] by auto

lemma sorted_run:
  "sorted (map phase (fst (schedule_with build idx w self)
                        @ fst (finish (snd (schedule_with build idx w self)))))"
proof -
  let ?E = "fst (ensure_output_dir w self)"
  have E: "?E = [] \<or> ?E = [MakeDirs (dirname_abspath w (ofiles self ! 0))]"
    by (simp add: ensure_output_dir_effects)
  have stop: "sorted (map phase (?E @ fst (finish r)))" for r
    using E finish_effects [of r] by auto
  show ?thesis
  proof (cases "snd (ensure_output_dir w self)")
    case (Inl e)
    then show ?thesis
      using stop [of "Inl e"] by (simp add: schedule_with_eq)
  next
    case (Inr u)
    show ?thesis
    proof (cases "build self")
      case (Inl e)
      with Inr show ?thesis
        using stop [of "Inl e"] by (simp add: schedule_with_eq)
    next
      case built: (Inr cmd)
      define T where "T = fst (report_job_id idx (communicate w cmd))
                            @ fst (finish (snd (report_job_id idx (communicate w cmd))))"
      have "T = [Traceback IndexError] \<or> (\<exists>s. T = [Print Stdout s])"
        unfolding T_def by (rule finish_report)
      with E have "sorted (map phase (?E @ [Print Stderr cmd, Popen cmd] @ T))"
        by auto
      with Inr built show ?thesis
        unfolding T_def by (simp add: schedule_with_eq)
    qed
  qed
qed

lemma phase_pos: "Suc 0 \<le> phase x"
  by (cases x rule: phase.cases) simp_all

lemma sorted_main:
  assumes init: "init = SnakeJobQsub_init \<or> init = SnakeJobSbatch_init"
  shows "sorted (map phase (fst (main_with init (schedule_with build idx) w conf deps script)))"
proof (cases "read_job_properties w script")
  case (Inl e)
  have "sorted (map phase (ReadProperties script # fst (uncaught e)))"
    by (cases e) simp_all
  then show ?thesis
    by (simp add: main_with_unreadable [OF init Inl])
next
  case (Inr p)
  from main_with_readable [OF init Inr, of conf "schedule_with build idx" deps]
  obtain sj where run:
    "main_with init (schedule_with build idx) w conf deps script
       = (ReadProperties script # fst (schedule_with build idx w sj)
            @ fst (finish (snd (schedule_with build idx w sj))),
          snd (finish (snd (schedule_with build idx w sj))))"
    by blast
  let ?t = "fst (schedule_with build idx w sj) @ fst (finish (snd (schedule_with build idx w sj)))"
  have "sorted (map phase (ReadProperties script # ?t))"
    using sorted_run [of build idx w sj] by (auto simp: phase_pos)
  with run show ?thesis by simp
qed

lemma main_dir_and_config:
  assumes init: "init = SnakeJobQsub_init \<or> init = SnakeJobSbatch_init"
    and props: "read_job_properties w script = Inr p"
    and build: "build = (\<lambda>sj. and_then (resolve_rule_conf (config sj) (rule sj)) (rest sj))"
  shows "prop_output p \<noteq> [] \<Longrightarrow>
           take 2 (fst (main_with init (schedule_with build idx) w conf deps script))
             = [ReadProperties script, MakeDirs (dirname_abspath w (prop_output p ! 0))]"
    and "resolve_rule_conf conf (prop_rule p) = Inl e \<Longrightarrow>
           spawned (fst (main_with init (schedule_with build idx) w conf deps script)) = []"
    and "resolve_rule_conf conf (prop_rule p) = Inl e \<Longrightarrow> dir_step_ok w (prop_output p) \<Longrightarrow>
           snd (main_with init (schedule_with build idx) w conf deps script) = 2
         \<and> printed Stdout (fst (main_with init (schedule_with build idx) w conf deps script)) = []
         \<and> (\<exists>m. e = UndefinedJobRule m
               \<and> printed Stderr (fst (main_with init (schedule_with build idx) w conf deps script))
                   = [m])"
proof -
  from main_with_readable [OF init props, of conf "schedule_with build idx" deps]
  obtain sj where sj: "rule sj = prop_rule p" "ofiles sj = prop_output p" "config sj = conf"
    and run:
    "main_with init (schedule_with build idx) w conf deps script
       = (ReadProperties script # fst (schedule_with build idx w sj)
            @ fst (finish (snd (schedule_with build idx w sj))),
          snd (finish (snd (schedule_with build idx w sj))))"
    by blast
  show "take 2 (fst (main_with init (schedule_with build idx) w conf deps script))
          = [ReadProperties script, MakeDirs (dirname_abspath w (prop_output p ! 0))]"
    if "prop_output p \<noteq> []"
  proof -
    have "fst (ensure_output_dir w sj) = [MakeDirs (dirname_abspath w (prop_output p ! 0))]"
      using that sj(2) by (simp add: ensure_output_dir_effects)
    then show ?thesis
      unfolding run
      by (cases "snd (ensure_output_dir w sj)"; cases "build sj") (simp_all add: schedule_with_eq)
  qed
  assume res: "resolve_rule_conf conf (prop_rule p) = Inl e"
  then have b: "build sj = Inl e"
    using sj(1,3) by (simp add: build)
  obtain m where e: "e = UndefinedJobRule m"
    using res by (auto simp: resolve_rule_conf_def Let_def split: option.splits conf_value.splits if_splits)
  show "spawned (fst (main_with init (schedule_with build idx) w conf deps script)) = []"
    using build_fails_schedule(1) [where build = build and self = sj and idx = idx and w = w, OF b]
    by (simp add: run)
  show "snd (main_with init (schedule_with build idx) w conf deps script) = 2
      \<and> printed Stdout (fst (main_with init (schedule_with build idx) w conf deps script)) = []
      \<and> (\<exists>m. e = UndefinedJobRule m
            \<and> printed Stderr (fst (main_with init (schedule_with build idx) w conf deps script))
                = [m])"
    if "dir_step_ok w (prop_output p)"
  proof -
    have "snd (ensure_output_dir w sj) = Inr ()"
      using that sj(2) by (simp add: ensure_output_dir_ok)
    with b have "schedule_with build idx w sj = (fst (ensure_output_dir w sj), Inl e)"
      by (simp add: schedule_with_eq)
    with e show ?thesis
      by (simp add: run)
  qed
qed

lemma qsub_cmd_resolves:
  "qsub_cmd = (\<lambda>sj. and_then (resolve_rule_conf (config sj) (rule sj))
                      (\<lambda>rule_conf. and_then (qsub_attributes sj rule_conf)
                         (format_template qsub_template)))"
  by (rule ext) (simp add: qsub_cmd_def)

lemma sbatch_cmd_resolves:
  "sbatch_cmd = (\<lambda>sj. and_then (resolve_rule_conf (config sj) (rule sj))
                        (\<lambda>rule_conf. and_then (sbatch_attributes sj rule_conf)
                           (format_template sbatch_template)))"
  by (rule ext) (simp add: sbatch_cmd_def)

lemmas qsub_dir_and_config =
  main_dir_and_config [where init = SnakeJobQsub_init and build = qsub_cmd and idx = 2,
    OF _ _ qsub_cmd_resolves, folded SnakeJobQsub_schedule_def main_qsub_def, simplified]

lemmas sbatch_dir_and_config =
  main_dir_and_config [where init = SnakeJobSbatch_init and build = sbatch_cmd and idx = "- 1",
    OF _ _ sbatch_cmd_resolves, folded SnakeJobSbatch_schedule_def main_sbatch_def, simplified]

lemmas sorted_main_qsub =
  sorted_main [where init = SnakeJobQsub_init and build = qsub_cmd and idx = 2,
    folded SnakeJobQsub_schedule_def main_qsub_def, simplified]

lemmas sorted_main_sbatch =
  sorted_main [where init = SnakeJobSbatch_init and build = sbatch_cmd and idx = "- 1",
    folded SnakeJobSbatch_schedule_def main_sbatch_def, simplified]

text \<open>
  C8, as the scripts have it. The effects of every run come in the order: job properties
  read, output directory made, command echoed (or the message of \<open>UndefinedJobRule\<close>
  printed), command run, job id reported. The directory of the first output file is made
  right after the properties are read, before the table is looked at and whatever the
  table holds. When the lookup fails no command is run; when the directory step went
  through, the run then writes nothing to standard output, its only line on standard
  error is the message of \<open>UndefinedJobRule\<close>, and the status is 2.
\<close>

theorem run_order:
  "sorted (map phase (fst (main_qsub w conf deps script)))
 \<and> sorted (map phase (fst (main_sbatch w conf deps script)))
 \<and> (read_job_properties w script = Inr p \<and> prop_output p \<noteq> [] \<longrightarrow>
       take 2 (fst (main_qsub w conf deps script))
         = [ReadProperties script, MakeDirs (dirname_abspath w (prop_output p ! 0))]
     \<and> take 2 (fst (main_sbatch w conf deps script))
         = [ReadProperties script, MakeDirs (dirname_abspath w (prop_output p ! 0))])
 \<and> (read_job_properties w script = Inr p \<and> resolve_rule_conf conf (prop_rule p) = Inl e \<longrightarrow>
       spawned (fst (main_qsub w conf deps script)) = []
     \<and> spawned (fst (main_sbatch w conf deps script)) = []
     \<and> (dir_step_ok w (prop_output p) \<longrightarrow>
           snd (main_qsub w conf deps script) = 2 \<and> snd (main_sbatch w conf deps script) = 2
         \<and> printed Stdout (fst (main_qsub w conf deps script)) = []
         \<and> printed Stdout (fst (main_sbatch w conf deps script)) = []
         \<and> (\<exists>m. e = UndefinedJobRule m
               \<and> printed Stderr (fst (main_qsub w conf deps script)) = [m]
               \<and> printed Stderr (fst (main_sbatch w conf deps script)) = [m])))"
  using sorted_main_qsub [of w conf deps script] sorted_main_sbatch [of w conf deps script]
    qsub_dir_and_config [where w = w and script = script and p = p and conf = conf and deps = deps]
    sbatch_dir_and_config [where w = w and script = script and p = p and conf = conf and deps = deps]
  by blast

lemma example_properties:
  "read_job_properties (example_world out) script
     = Inr \<lparr> prop_rule = ''bwa'', prop_input = [''a.fq''], prop_output = [''out/a.bam''] \<rparr>"
  by (simp add: example_world_def)

lemma empty_table_lookup:
  "resolve_rule_conf Map.empty ''bwa''
     = Inl (UndefinedJobRule ''No schedule config found for schedule_bwa'')"
  by (simp add: resolve_rule_conf_def)

theorem run_order_witness:
  "take 2 (fst (main_qsub (example_world []) Map.empty [] ''job.sh''))
     = [ReadProperties ''job.sh'', MakeDirs ''/work/out'']
 \<and> spawned (fst (main_qsub (example_world []) Map.empty [] ''job.sh'')) = []
 \<and> snd (main_qsub (example_world []) Map.empty [] ''job.sh'') = 2
 \<and> snd (main_sbatch (example_world []) Map.empty [] ''job.sh'') = 2
 \<and> printed Stderr (fst (main_qsub (example_world []) Map.empty [] ''job.sh''))
     = [''No schedule config found for schedule_bwa'']"
proof -
  let ?p = "\<lparr> prop_rule = ''bwa'', prop_input = [''a.fq''], prop_output = [''out/a.bam''] \<rparr>"
  have a: "read_job_properties (example_world []) ''job.sh'' = Inr ?p"
    by (rule example_properties)
  have b: "prop_output ?p \<noteq> []"
    by simp
  have c: "resolve_rule_conf Map.empty (prop_rule ?p)
             = Inl (UndefinedJobRule ''No schedule config found for schedule_bwa'')"
    by (simp add: empty_table_lookup)
  have d: "dir_step_ok (example_world []) (prop_output ?p)"
    by (simp add: dir_step_ok_def example_world_def)
  have e: "dirname_abspath (example_world []) (prop_output ?p ! 0) = ''/work/out''"
    by (simp add: example_world_def)
  show ?thesis
    using run_order [of "example_world []" Map.empty "[]" "''job.sh''" ?p
        "UndefinedJobRule ''No schedule config found for schedule_bwa''"] a b c d
    unfolding e by auto
qed

text \<open>
  The order of C8 as the specification words it, with the table looked at before the
  directory is made, fails on a rule that has no configuration: the run ends with the
  message of \<open>UndefinedJobRule\<close> and status 2, and the directory has been made.
\<close>

theorem config_before_directory_counterexample:
  "main_qsub (example_world []) Map.empty [] ''job.sh''
     = ([ReadProperties ''job.sh'', MakeDirs ''/work/out'',
         Print Stderr ''No schedule config found for schedule_bwa''], 2)
 \<and> main_sbatch (example_world []) Map.empty [] ''job.sh''
     = ([ReadProperties ''job.sh'', MakeDirs ''/work/out'',
         Print Stderr ''No schedule config found for schedule_bwa''], 2)"
  by (simp add: main_qsub_def main_sbatch_def main_with_def SnakeJobQsub_init_eq
        SnakeJobSbatch_init_eq SnakeJobQsub_schedule_def SnakeJobSbatch_schedule_def
        schedule_with_eq ensure_output_dir_def make_dir_def example_world_def
        qsub_cmd_def sbatch_cmd_def resolve_rule_conf_def)

subsection \<open>Where the diagnostic goes\<close>

text \<open>
  C7. The echo of the command and the message of \<open>UndefinedJobRule\<close> are printed with
  \<open>file=sys.stderr\<close>; the message for a job id that cannot be read is printed without
  it. On the refusal of the example the sbatch script writes that message to standard
  output, and the only line on standard error is the command.
\<close>

theorem diagnostic_on_stdout:
  "printed Stdout (fst (main_sbatch (example_world sbatch_refusal) example_sbatch_config [] ''job.sh''))
     = [''Not a submitted job: b'' @ [CHR 0x27] @ ''sbatch: error: invalid partition'' @ [CHR 0x27]]
 \<and> printed Stderr (fst (main_sbatch (example_world sbatch_refusal) example_sbatch_config [] ''job.sh''))
     = spawned (fst (main_sbatch (example_world sbatch_refusal) example_sbatch_config [] ''job.sh''))
 \<and> snd (main_sbatch (example_world sbatch_refusal) example_sbatch_config [] ''job.sh'') = 2"
proof -
  obtain c where c:
    "Popen c \<in> set (fst (main_sbatch (example_world sbatch_refusal) example_sbatch_config [] ''job.sh''))"
    using example_sbatch_run_submits by blast
  have "report_job_id (- 1) (communicate (example_world sbatch_refusal) c)
          = ([Print Stdout (''Not a submitted job: '' @ bytes_str sbatch_refusal)], Inl (SystemExit 2))"
    by (simp add: report_job_id_def sbatch_refusal_tokens py_index_def py_int_partition)
  with sbatch_submitted [OF c] show ?thesis
    by (auto simp: bytes_str_sbatch_refusal)
qed

subsection \<open>Log and error files\<close>

lemma qsub_attributes_files:
  assumes "qsub_attributes self rule_conf = Inr a"
  shows "a ''log_file'' = Some (SStr (if ofiles self \<noteq> [] then ofiles self ! 0 @ ''-qsub.out''
                                     else ''snakemake-'' @ rule self @ ''-qsub.out''))"
    and "a ''err_file'' = Some (SStr (if ofiles self \<noteq> [] then ofiles self ! 0 @ ''-qsub.err''
                                     else ''snakemake-'' @ rule self @ ''-qsub.err''))"
  using assms
  by (auto simp: qsub_attributes_def and_then_def split: sum.splits)

lemma sbatch_attributes_files:
  assumes "sbatch_attributes self rule_conf = Inr a"
  shows "a ''log_file'' = Some (SStr (if ofiles self \<noteq> [] then ofiles self ! 0 @ ''-slurm.out''
                                     else ''snakemake-'' @ rule self @ ''-slurm.out''))"
    and "a ''err_file'' = None"
  using assms
  by (auto simp: sbatch_attributes_def and_then_def split: sum.splits)

text \<open>
  C9, as the scripts have it. The qsub script names a log file and an error file: the
  first output path followed by \<open>-qsub.out\<close> and \<open>-qsub.err\<close>, or
  \<open>snakemake-<rule>-qsub.out\<close> and \<open>snakemake-<rule>-qsub.err\<close> when the job has no output.
  The sbatch script names a log file only, with \<open>-slurm.out\<close> in the place of
  \<open>-qsub.out\<close>; it has no error file.
\<close>

theorem log_and_error_files:
  "(qsub_attributes self rule_conf = Inr a \<longrightarrow>
      a ''log_file'' = Some (SStr (if ofiles self \<noteq> [] then ofiles self ! 0 @ ''-qsub.out''
                                   else ''snakemake-'' @ rule self @ ''-qsub.out''))
    \<and> a ''err_file'' = Some (SStr (if ofiles self \<noteq> [] then ofiles self ! 0 @ ''-qsub.err''
                                   else ''snakemake-'' @ rule self @ ''-qsub.err'')))
 \<and> (sbatch_attributes self rule_conf = Inr a \<longrightarrow>
      a ''log_file'' = Some (SStr (if ofiles self \<noteq> [] then ofiles self ! 0 @ ''-slurm.out''
                                   else ''snakemake-'' @ rule self @ ''-slurm.out''))
    \<and> a ''err_file'' = None)
 \<and> Field ''log_file'' \<in> set qsub_template \<and> Field ''err_file'' \<in> set qsub_template
 \<and> Field ''log_file'' \<in> set sbatch_template \<and> Field ''err_file'' \<notin> set sbatch_template"
  using qsub_attributes_files [of self rule_conf a] sbatch_attributes_files [of self rule_conf a]
  by (simp add: qsub_template_def sbatch_template_def)

theorem log_and_error_files_witness:
  "map_sum id (\<lambda>a. (a ''log_file'', a ''err_file''))
     (qsub_attributes (example_job example_qsub_config [])
        (CRec [''queue'' \<mapsto> SStr ''all.q'', ''threads'' \<mapsto> SInt 4]))
     = Inr (Some (SStr ''out/a.bam-qsub.out''), Some (SStr ''out/a.bam-qsub.err''))
 \<and> map_sum id (\<lambda>a. a ''log_file'')
     (sbatch_attributes ((example_job example_sbatch_config [])\<lparr> ofiles := [] \<rparr>) example_sbatch_record)
     = Inr (Some (SStr ''snakemake-bwa-slurm.out''))"
proof -
  obtain a where a:
    "qsub_attributes (example_job example_qsub_config [])
       (CRec [''queue'' \<mapsto> SStr ''all.q'', ''threads'' \<mapsto> SInt 4]) = Inr a"
    by (simp add: qsub_attributes_def example_job_def example_qsub_config_def
          config_subscript_def subscript_def get_default_def)
  obtain b where b:
    "sbatch_attributes ((example_job example_sbatch_config [])\<lparr> ofiles := [] \<rparr>) example_sbatch_record
       = Inr b"
    by (simp add: sbatch_attributes_def example_job_def example_sbatch_config_def
          example_sbatch_record_def config_subscript_def subscript_def get_default_def)
  have "a ''log_file'' = Some (SStr ''out/a.bam-qsub.out'')
      \<and> a ''err_file'' = Some (SStr ''out/a.bam-qsub.err'')"
    using log_and_error_files [of "example_job example_qsub_config []" _ a] a
    by (simp add: example_job_def)
  moreover have "b ''log_file'' = Some (SStr ''snakemake-bwa-slurm.out'')"
    using log_and_error_files [of "(example_job example_sbatch_config [])\<lparr> ofiles := [] \<rparr>" _ b] b
    by (simp add: example_job_def)
  ultimately show ?thesis
    using a b by simp
qed

text \<open>
  The claim C9 as the specification words it gives the sbatch job an error file named
  after its first output; the attributes of the sbatch script have no such entry.
\<close>

theorem sbatch_error_file_counterexample:
  "map_sum id (\<lambda>a. (a ''log_file'', a ''err_file''))
     (sbatch_attributes (example_job example_sbatch_config []) example_sbatch_record)
     = Inr (Some (SStr ''out/a.bam-slurm.out''), None)"
  by (simp add: sbatch_attributes_def example_job_def example_sbatch_config_def
        example_sbatch_record_def config_subscript_def subscript_def get_default_def)

end
